theory Spec2Isabelle
  imports Complex_Main "HOL-Library.AList" "HOL-Library.Signed_Division"
begin

section \<open>Errors\<close>

text \<open>
  Every way \<^verbatim>\<open>Peridigm_ContactManager.cpp\<close> can leave a function other than by
  returning: the three Teuchos exceptions it throws, each with its message; the two that
  \<^verbatim>\<open>Teuchos::ParameterList::sublist\<close> throws, with the name asked for; and the two
  undefined behaviours of C++ that its code can reach (an array access outside the
  array, an integer remainder by zero), which the model turns into error values.
\<close>

datatype error =
    Except string
  | InvalidParameter string
  | RangeError string
  | InvalidParameterName string
  | InvalidParameterType string
  | OutOfBounds
  | DivideByZero

section \<open>Epetra\_BlockMap and Epetra\_Vector as used by the contact manager\<close>

text \<open>
  A rank's view of an \<^verbatim>\<open>Epetra_BlockMap\<close>: the global IDs of its elements in local-ID
  order and the size of each element. C++ \<^verbatim>\<open>int\<close> values are modelled as
  unbounded integers; the code does no arithmetic on them that could wrap.
\<close>

record Epetra_BlockMap =
  MyGlobalElements :: "int list"
  ElementSizeList :: "int list"

definition BlockMap_constant :: "int list \<Rightarrow> int \<Rightarrow> Epetra_BlockMap" where
  "BlockMap_constant gids elementSize =
     \<lparr>MyGlobalElements = gids, ElementSizeList = replicate (length gids) elementSize\<rparr>"

definition BlockMap_variable :: "int list \<Rightarrow> int list \<Rightarrow> Epetra_BlockMap" where
  "BlockMap_variable gids sizes = \<lparr>MyGlobalElements = gids, ElementSizeList = sizes\<rparr>"

definition NumMyElements :: "Epetra_BlockMap \<Rightarrow> nat" where
  "NumMyElements m = length (MyGlobalElements m)"

definition NumMyPoints :: "Epetra_BlockMap \<Rightarrow> int" where
  "NumMyPoints m = sum_list (ElementSizeList m)"

fun LID_from :: "int list \<Rightarrow> int \<Rightarrow> int \<Rightarrow> int" where
  "LID_from [] g i = -1"
| "LID_from (x # xs) g i = (if x = g then i else LID_from xs g (i + 1))"

text \<open>\<^verbatim>\<open>LID(gid)\<close>: the local slot of a global ID, \<open>-1\<close> when this rank does not hold it.\<close>

definition LID :: "Epetra_BlockMap \<Rightarrow> int \<Rightarrow> int" where
  "LID m g = LID_from (MyGlobalElements m) g 0"

definition MyGID :: "Epetra_BlockMap \<Rightarrow> int \<Rightarrow> bool" where
  "MyGID m g = (LID m g \<noteq> -1)"

text \<open>\<^verbatim>\<open>GID(lid)\<close>: the global ID in a slot, \<open>IndexBase - 1 = -1\<close> outside the map.\<close>

definition GID :: "Epetra_BlockMap \<Rightarrow> int \<Rightarrow> int" where
  "GID m i = (if 0 \<le> i \<and> i < int (NumMyElements m) then MyGlobalElements m ! nat i else -1)"

text \<open>An unchecked C++ array read: outside the array it is \<open>OutOfBounds\<close>.\<close>

definition vread :: "'a list \<Rightarrow> int \<Rightarrow> error + 'a" where
  "vread v i = (if 0 \<le> i \<and> i < int (length v) then Inr (v ! nat i) else Inl OutOfBounds)"

definition ElementSize :: "Epetra_BlockMap \<Rightarrow> int \<Rightarrow> error + int" where
  "ElementSize m lid = vread (ElementSizeList m) lid"

text \<open>\<^verbatim>\<open>FirstPointInElementList()[lid]\<close>: the offset of an element's first point.\<close>

definition FirstPointInElement :: "Epetra_BlockMap \<Rightarrow> int \<Rightarrow> error + int" where
  "FirstPointInElement m lid =
     (if 0 \<le> lid \<and> lid \<le> int (length (ElementSizeList m))
      then Inr (sum_list (take (nat lid) (ElementSizeList m)))
      else Inl OutOfBounds)"

text \<open>A \<^verbatim>\<open>std::set<int>\<close>: its elements in ascending order, each once.\<close>

definition set_insert :: "int \<Rightarrow> int list \<Rightarrow> int list" where
  "set_insert x xs = (if x \<in> set xs then xs else insort x xs)"

section \<open>contactSearch\<close>

text \<open>
  Lines 522-532: the global IDs a point is bonded to, read from the migrated
  neighbor-ID vector at the offsets the rebalanced bond map gives. A point with no entry
  in the bond map has no bonded neighbors.
\<close>

fun bondedLoop :: "int list \<Rightarrow> int \<Rightarrow> nat \<Rightarrow> int list \<Rightarrow> error + int list" where
  "bondedLoop ids j 0 bondedNeighbors = Inr bondedNeighbors"
| "bondedLoop ids j (Suc k) bondedNeighbors =
     (case vread ids j of
        Inl e \<Rightarrow> Inl e
      | Inr neighborGlobalID \<Rightarrow> bondedLoop ids (j + 1) k (bondedNeighbors @ [neighborGlobalID]))"

definition bondedNeighbors :: "Epetra_BlockMap \<Rightarrow> int list \<Rightarrow> int \<Rightarrow> error + int list" where
  "bondedNeighbors rebalancedBondMap rebalancedNeighborGlobalIDs globalID =
     (let tempLocalID = LID rebalancedBondMap globalID in
      if tempLocalID \<noteq> -1 then
        (case FirstPointInElement rebalancedBondMap tempLocalID of
           Inl e \<Rightarrow> Inl e
         | Inr firstNeighbor \<Rightarrow>
        (case ElementSize rebalancedBondMap tempLocalID of
           Inl e \<Rightarrow> Inl e
         | Inr numNeighbors \<Rightarrow>
             bondedLoop rebalancedNeighborGlobalIDs firstNeighbor (nat numNeighbors) []))
      else Inr [])"

text \<open>
  Lines 537-545: the neighbors the search returned for one point are read one by one from
  the flat search array; one that is not bonded is appended to the point's contact list
  and, when the rebalanced owned map does not hold it, inserted into the set of
  off-processor contact IDs.
\<close>

fun retainLoop ::
  "Epetra_BlockMap \<Rightarrow> int list \<Rightarrow> int list \<Rightarrow> int \<Rightarrow> nat \<Rightarrow> int list \<times> int list
     \<Rightarrow> error + (int \<times> int list \<times> int list)" where
  "retainLoop rodm bonded searchNeighborhood searchListIndex 0 (contactList, offIDs) =
     Inr (searchListIndex, contactList, offIDs)"
| "retainLoop rodm bonded searchNeighborhood searchListIndex (Suc k) (contactList, offIDs) =
     (case vread searchNeighborhood searchListIndex of
        Inl e \<Rightarrow> Inl e
      | Inr globalNeighborID \<Rightarrow>
          if globalNeighborID \<notin> set bonded then
            retainLoop rodm bonded searchNeighborhood (searchListIndex + 1) k
              (contactList @ [globalNeighborID],
               if LID rodm globalNeighborID = -1 then set_insert globalNeighborID offIDs
               else offIDs)
          else
            retainLoop rodm bonded searchNeighborhood (searchListIndex + 1) k
              (contactList, offIDs))"

text \<open>
  Lines 516-546: the loop over the points of the search. \<^verbatim>\<open>contactNeighborGlobalIDs\<close>
  is a \<^verbatim>\<open>std::map<int, vector<int>>\<close>, here an association list; its
  \<^verbatim>\<open>operator[]\<close> creates an empty entry for a key it does not hold.
\<close>

fun contactSearchLoop ::
  "Epetra_BlockMap \<Rightarrow> Epetra_BlockMap \<Rightarrow> int list \<Rightarrow> int list \<Rightarrow> int list \<Rightarrow> int
     \<Rightarrow> (int \<times> int list) list \<times> int list \<Rightarrow> error + ((int \<times> int list) list \<times> int list)" where
  "contactSearchLoop rodm rbm ids searchNeighborhood [] searchListIndex st = Inr st"
| "contactSearchLoop rodm rbm ids searchNeighborhood (globalID # rest) searchListIndex
       (contactNeighborGlobalIDs, offProcessorContactIDs) =
     (let contactNeighborGlobalIDList =
            (case map_of contactNeighborGlobalIDs globalID of None \<Rightarrow> [] | Some l \<Rightarrow> l) in
      case bondedNeighbors rbm ids globalID of
        Inl e \<Rightarrow> Inl e
      | Inr bonded \<Rightarrow>
      (case vread searchNeighborhood searchListIndex of
        Inl e \<Rightarrow> Inl e
      | Inr searchNumNeighbors \<Rightarrow>
      (case retainLoop rodm bonded searchNeighborhood (searchListIndex + 1)
              (nat searchNumNeighbors) (contactNeighborGlobalIDList, offProcessorContactIDs) of
        Inl e \<Rightarrow> Inl e
      | Inr (searchListIndex', contactList, offIDs) \<Rightarrow>
          contactSearchLoop rodm rbm ids searchNeighborhood rest searchListIndex'
            (AList.update globalID contactList contactNeighborGlobalIDs, offIDs))))"

text \<open>
  \<^verbatim>\<open>contactSearch\<close>. The neighbor search itself (\<^verbatim>\<open>PDNEIGH::NeighborhoodList\<close>) is
  outside this file; its two results, the owned global IDs and the flat neighborhood
  array, are arguments, with the number of points of the rebalanced decomposition.
\<close>

definition contactSearch ::
  "Epetra_BlockMap \<Rightarrow> Epetra_BlockMap \<Rightarrow> int list \<Rightarrow> nat \<Rightarrow> int list \<Rightarrow> int list
     \<Rightarrow> (int \<times> int list) list \<times> int list \<Rightarrow> error + ((int \<times> int list) list \<times> int list)" where
  "contactSearch rebalancedOneDimensionalMap rebalancedBondMap rebalancedNeighborGlobalIDs
       numPoints searchGlobalIDs searchNeighborhood st =
     (if length searchGlobalIDs < numPoints then Inl OutOfBounds
      else contactSearchLoop rebalancedOneDimensionalMap rebalancedBondMap
             rebalancedNeighborGlobalIDs searchNeighborhood (take numPoints searchGlobalIDs) 0 st)"

text \<open>
  The layout of a flat neighborhood array, as the source states it
  (\<^verbatim>\<open>numNeighbors1, n1, n2, n3, numNeighbors2, n1, n2, ...\<close>): each point's count, then
  its neighbors.
\<close>

definition encodeNeighborhood :: "int list list \<Rightarrow> int list" where
  "encodeNeighborhood nss = concat (map (\<lambda>ns. int (length ns) # ns) nss)"

definition ghostInsert :: "Epetra_BlockMap \<Rightarrow> int \<Rightarrow> int list \<Rightarrow> int list" where
  "ghostInsert rodm n offIDs = (if LID rodm n = -1 then set_insert n offIDs else offIDs)"

section \<open>Vectors and imports\<close>

text \<open>
  An \<^verbatim>\<open>Epetra_Vector\<close> over a map is the flat list of its points, element after
  element; a new vector is filled with zeros. Vectors that hold global IDs or counts are
  lists of integers: the code stores \<^verbatim>\<open>int\<close> values in them as \<^verbatim>\<open>double\<close> and casts
  them back, which is exact for every \<^verbatim>\<open>int\<close>.
\<close>

definition Epetra_Vector_new :: "Epetra_BlockMap \<Rightarrow> ('a::zero) list" where
  "Epetra_Vector_new m = replicate (nat (NumMyPoints m)) 0"

definition PutScalar :: "'a \<Rightarrow> 'a list \<Rightarrow> 'a list" where
  "PutScalar x v = replicate (length v) x"

text \<open>An unchecked C++ array write.\<close>

definition vwrite :: "'a list \<Rightarrow> int \<Rightarrow> 'a \<Rightarrow> error + 'a list" where
  "vwrite v i x = (if 0 \<le> i \<and> i < int (length v) then Inr (v[nat i := x]) else Inl OutOfBounds)"

fun splitBlocks :: "int list \<Rightarrow> 'a list \<Rightarrow> 'a list list" where
  "splitBlocks [] v = []"
| "splitBlocks (s # ss) v = take (nat s) v # splitBlocks ss (drop (nat s) v)"

definition vectorBlocks :: "Epetra_BlockMap \<Rightarrow> 'a list \<Rightarrow> 'a list list" where
  "vectorBlocks m v = splitBlocks (ElementSizeList m) v"

record Epetra_Import =
  TargetMap :: Epetra_BlockMap
  SourceMap :: Epetra_BlockMap

definition Epetra_Import_new :: "Epetra_BlockMap \<Rightarrow> Epetra_BlockMap \<Rightarrow> Epetra_Import" where
  "Epetra_Import_new targetMap sourceMap = \<lparr>TargetMap = targetMap, SourceMap = sourceMap\<rparr>"

text \<open>
  Modelled from the spec: \<^verbatim>\<open>Epetra_Import\<close> and \<^verbatim>\<open>Import(..., Insert)\<close> belong to the
  Trilinos library. By section 4.2 of the specification a move with policy Overwrite
  copies, for every ID present in both maps, the value from the source's slot to the
  destination's slot, and leaves IDs present only in the destination at their current
  value. The source is distributed: what this rank holds of it is its own map and vector,
  what the other ranks hold is the function \<open>remote\<close>, from a global ID to that
  element's values. An element is copied as far as the destination's element has room.
\<close>

definition distributedView ::
  "(int \<Rightarrow> 'a list option) \<Rightarrow> Epetra_BlockMap \<Rightarrow> 'a list \<Rightarrow> int \<Rightarrow> 'a list option" where
  "distributedView remote m v g =
     (case map_of (zip (MyGlobalElements m) (vectorBlocks m v)) g of
        Some b \<Rightarrow> Some b
      | None \<Rightarrow> remote g)"

definition overwriteBlock :: "'a list \<Rightarrow> 'a list \<Rightarrow> 'a list" where
  "overwriteBlock old b = take (length old) (b @ drop (length b) old)"

definition Import_Insert ::
  "(int \<Rightarrow> 'a list option) \<Rightarrow> 'a list \<Rightarrow> Epetra_Import \<Rightarrow> 'a list \<Rightarrow> 'a list" where
  "Import_Insert remote source importer target =
     concat (map (\<lambda>(g, old).
                    case distributedView remote (SourceMap importer) source g of
                      Some b \<Rightarrow> overwriteBlock old b
                    | None \<Rightarrow> old)
                 (zip (MyGlobalElements (TargetMap importer))
                      (vectorBlocks (TargetMap importer) target)))"

section \<open>createRebalancedBondMap\<close>

text \<open>
  Lines 449-456: the number of bonds of each point owned in the current decomposition.
  The size is read at index \<open>i\<close> of the bond map, as the source does.
\<close>

fun numberOfBondsLoop ::
  "Epetra_BlockMap \<Rightarrow> Epetra_BlockMap \<Rightarrow> nat list \<Rightarrow> int list \<Rightarrow> error + int list" where
  "numberOfBondsLoop oneDimensionalContactMap bondContactMap [] numberOfBonds = Inr numberOfBonds"
| "numberOfBondsLoop oneDimensionalContactMap bondContactMap (i # rest) numberOfBonds =
     (let globalID = GID oneDimensionalContactMap (int i);
          bondMapLocalID = LID bondContactMap globalID in
      if bondMapLocalID \<noteq> -1 then
        (case ElementSize bondContactMap (int i) of
           Inl e \<Rightarrow> Inl e
         | Inr elementSize \<Rightarrow>
        (case vwrite numberOfBonds (int i) elementSize of
           Inl e \<Rightarrow> Inl e
         | Inr numberOfBonds' \<Rightarrow>
             numberOfBondsLoop oneDimensionalContactMap bondContactMap rest numberOfBonds'))
      else numberOfBondsLoop oneDimensionalContactMap bondContactMap rest numberOfBonds)"

definition numberOfBonds :: "Epetra_BlockMap \<Rightarrow> Epetra_BlockMap \<Rightarrow> error + int list" where
  "numberOfBonds oneDimensionalContactMap bondContactMap =
     numberOfBondsLoop oneDimensionalContactMap bondContactMap
       [0 ..< NumMyElements oneDimensionalContactMap]
       (Epetra_Vector_new oneDimensionalContactMap)"

text \<open>Lines 457-458: the counts are imported into the rebalanced owned map.\<close>

definition rebalancedNumberOfBonds ::
  "(int \<Rightarrow> int list option) \<Rightarrow> Epetra_BlockMap \<Rightarrow> Epetra_BlockMap \<Rightarrow> Epetra_BlockMap
     \<Rightarrow> Epetra_Import \<Rightarrow> error + int list" where
  "rebalancedNumberOfBonds remote oneDimensionalContactMap bondContactMap
       rebalancedOneDimensionalMap importer =
     (case numberOfBonds oneDimensionalContactMap bondContactMap of
        Inl e \<Rightarrow> Inl e
      | Inr nb \<Rightarrow>
          Inr (Import_Insert remote nb importer (Epetra_Vector_new rebalancedOneDimensionalMap)))"

text \<open>
  Lines 460-479: the loop that keeps the points with a positive number of bonds. Its state
  is \<^verbatim>\<open>numMyElements\<close>, the two arrays and \<^verbatim>\<open>numPointsWithZeroNeighbors\<close>.
\<close>

fun rebalancedBondMapLoop ::
  "int list \<Rightarrow> int list \<Rightarrow> nat list \<Rightarrow> int \<times> int list \<times> int list \<times> int
     \<Rightarrow> error + (int \<times> int list \<times> int list \<times> int)" where
  "rebalancedBondMapLoop gids rnb [] st = Inr st"
| "rebalancedBondMapLoop gids rnb (i # rest)
       (numMyElements, myGlobalElements, elementSizeList, numPointsWithZeroNeighbors) =
     (case vread rnb (int i) of
        Inl e \<Rightarrow> Inl e
      | Inr numBonds \<Rightarrow>
          if numBonds > 0 then
            (case vread gids (int i) of
               Inl e \<Rightarrow> Inl e
             | Inr g \<Rightarrow>
            (case vwrite myGlobalElements (int i - numPointsWithZeroNeighbors) g of
               Inl e \<Rightarrow> Inl e
             | Inr myGlobalElements' \<Rightarrow>
            (case vwrite elementSizeList (int i - numPointsWithZeroNeighbors) numBonds of
               Inl e \<Rightarrow> Inl e
             | Inr elementSizeList' \<Rightarrow>
                 rebalancedBondMapLoop gids rnb rest
                   (numMyElements + 1, myGlobalElements', elementSizeList',
                    numPointsWithZeroNeighbors))))
          else
            rebalancedBondMapLoop gids rnb rest
              (numMyElements, myGlobalElements, elementSizeList,
               numPointsWithZeroNeighbors + 1))"

definition rebalancedBondMapArrays ::
  "Epetra_BlockMap \<Rightarrow> int list \<Rightarrow> error + (int \<times> int list \<times> int list \<times> int)" where
  "rebalancedBondMapArrays rebalancedOneDimensionalMap rnb =
     (let numMyElementsUpperBound = NumMyElements rebalancedOneDimensionalMap in
      rebalancedBondMapLoop (MyGlobalElements rebalancedOneDimensionalMap) rnb
        [0 ..< numMyElementsUpperBound]
        (0, replicate numMyElementsUpperBound 0, replicate numMyElementsUpperBound 0, 0))"

text \<open>
  Lines 480-486: the bond map is built from the first \<^verbatim>\<open>numMyElements\<close> entries of the
  two arrays.
\<close>

definition constructRebalancedBondMap :: "Epetra_BlockMap \<Rightarrow> int list \<Rightarrow> error + Epetra_BlockMap" where
  "constructRebalancedBondMap rebalancedOneDimensionalMap rnb =
     (case rebalancedBondMapArrays rebalancedOneDimensionalMap rnb of
        Inl e \<Rightarrow> Inl e
      | Inr (numMyElements, myGlobalElements, elementSizeList, numPointsWithZeroNeighbors) \<Rightarrow>
          Inr (BlockMap_variable (take (nat numMyElements) myGlobalElements)
                                 (take (nat numMyElements) elementSizeList)))"

definition createRebalancedBondMap ::
  "(int \<Rightarrow> int list option) \<Rightarrow> Epetra_BlockMap \<Rightarrow> Epetra_BlockMap \<Rightarrow> Epetra_BlockMap
     \<Rightarrow> Epetra_Import \<Rightarrow> error + Epetra_BlockMap" where
  "createRebalancedBondMap remote oneDimensionalContactMap bondContactMap
       rebalancedOneDimensionalMap importer =
     (case rebalancedNumberOfBonds remote oneDimensionalContactMap bondContactMap
             rebalancedOneDimensionalMap importer of
        Inl e \<Rightarrow> Inl e
      | Inr rnb \<Rightarrow> constructRebalancedBondMap rebalancedOneDimensionalMap rnb)"

section \<open>Neighborhood tables\<close>

text \<open>
  Modelled from the spec: the class \<^verbatim>\<open>NeighborhoodData\<close> is declared outside this file.
  By section 3 of the specification a Neighborhood Table is a flat sequence
  \<open>[count_0, n_{0,1}, ..., count_1, ...]\<close> of local slot indices; the source fills it,
  with the owned IDs and one pointer per owned point to the start of its entry, through
  \<^verbatim>\<open>OwnedIDs()\<close>, \<^verbatim>\<open>NeighborhoodPtr()\<close> and \<^verbatim>\<open>NeighborhoodList()\<close>.
\<close>

record NeighborhoodData =
  NumOwnedPoints :: nat
  OwnedIDs :: "int list"
  NeighborhoodPtr :: "int list"
  NeighborhoodListSize :: int
  NeighborhoodList :: "int list"

text \<open>
  The neighbors a consumer reads for the owned point in slot \<open>iLID\<close>: the count at the
  point's pointer and that many entries after it.
\<close>

definition segmentAt :: "int list \<Rightarrow> nat \<Rightarrow> int list" where
  "segmentAt neighborhoodList p = take (nat (neighborhoodList ! p)) (drop (Suc p) neighborhoodList)"

definition tableNeighbors :: "NeighborhoodData \<Rightarrow> nat \<Rightarrow> int list" where
  "tableNeighbors t iLID = segmentAt (NeighborhoodList t) (nat (NeighborhoodPtr t ! iLID))"

definition validSlot :: "Epetra_BlockMap \<Rightarrow> int \<Rightarrow> bool" where
  "validSlot overlapMap l = (0 \<le> l \<and> l < int (NumMyElements overlapMap))"

text \<open>
  The table's list is allocated with \<^verbatim>\<open>SetNeighborhoodListSize\<close> and written from index
  0 upwards; writing more entries than were allocated is out of bounds. Entries never
  written are modelled as 0.
\<close>

definition allocatedList :: "int \<Rightarrow> int list \<Rightarrow> error + int list" where
  "allocatedList listSize written =
     (if listSize < int (length written) then Inl OutOfBounds
      else Inr (written @ replicate (nat listSize - length written) 0))"

section \<open>createRebalancedNeighborGlobalIDList\<close>

text \<open>
  Lines 552-562: the current bond table is walked and every neighbor's local ID is turned
  into its global ID through the current overlap map.
\<close>

fun neighborGlobalIDsInner ::
  "Epetra_BlockMap \<Rightarrow> int list \<Rightarrow> int \<Rightarrow> nat \<Rightarrow> int list \<Rightarrow> error + (int \<times> int list)" where
  "neighborGlobalIDsInner overlapMap neighborhoodList neighborhoodListIndex 0 written =
     Inr (neighborhoodListIndex, written)"
| "neighborGlobalIDsInner overlapMap neighborhoodList neighborhoodListIndex (Suc j) written =
     (case vread neighborhoodList neighborhoodListIndex of
        Inl e \<Rightarrow> Inl e
      | Inr neighborLocalID \<Rightarrow>
          neighborGlobalIDsInner overlapMap neighborhoodList (neighborhoodListIndex + 1) j
            (written @ [GID overlapMap neighborLocalID]))"

fun neighborGlobalIDsLoop ::
  "Epetra_BlockMap \<Rightarrow> int list \<Rightarrow> int \<Rightarrow> nat \<Rightarrow> int list \<Rightarrow> error + int list" where
  "neighborGlobalIDsLoop overlapMap neighborhoodList neighborhoodListIndex 0 written = Inr written"
| "neighborGlobalIDsLoop overlapMap neighborhoodList neighborhoodListIndex (Suc m) written =
     (case vread neighborhoodList neighborhoodListIndex of
        Inl e \<Rightarrow> Inl e
      | Inr numNeighbors \<Rightarrow>
      (case neighborGlobalIDsInner overlapMap neighborhoodList (neighborhoodListIndex + 1)
              (nat numNeighbors) written of
        Inl e \<Rightarrow> Inl e
      | Inr (neighborhoodListIndex', written') \<Rightarrow>
          neighborGlobalIDsLoop overlapMap neighborhoodList neighborhoodListIndex' m written'))"

definition createRebalancedNeighborGlobalIDList ::
  "(int \<Rightarrow> int list option) \<Rightarrow> NeighborhoodData \<Rightarrow> Epetra_BlockMap \<Rightarrow> Epetra_BlockMap
     \<Rightarrow> Epetra_BlockMap \<Rightarrow> Epetra_Import \<Rightarrow> error + int list" where
  "createRebalancedNeighborGlobalIDList remote neighborhoodData oneDimensionalOverlapContactMap
       bondContactMap rebalancedBondMap importer =
     (case neighborGlobalIDsLoop oneDimensionalOverlapContactMap
             (NeighborhoodList neighborhoodData) 0 (NumOwnedPoints neighborhoodData) [] of
        Inl e \<Rightarrow> Inl e
      | Inr written \<Rightarrow>
          let zeros = (Epetra_Vector_new bondContactMap :: int list) in
          if length zeros < length written then Inl OutOfBounds
          else
            let neighborGlobalIDs = written @ drop (length written) zeros in
            Inr (Import_Insert remote neighborGlobalIDs importer
                   (Epetra_Vector_new rebalancedBondMap)))"

section \<open>createRebalancedNeighborhoodData\<close>

text \<open>Lines 579-584 and 629-634: the overlap-map slot of every owned point.\<close>

fun ownedIDsLoop :: "Epetra_BlockMap \<Rightarrow> int list \<Rightarrow> int list \<Rightarrow> error + int list" where
  "ownedIDsLoop overlapMap [] ownedIDs = Inr ownedIDs"
| "ownedIDsLoop overlapMap (globalID # rest) ownedIDs =
     (let localID = LID overlapMap globalID in
      if localID = -1 then
        Inl (RangeError ''Invalid index into rebalancedOneDimensionalOverlapMap'')
      else ownedIDsLoop overlapMap rest (ownedIDs @ [localID]))"

text \<open>Lines 605-610: the neighbors of one point, each resolved in the overlap map.\<close>

fun bondNeighborLoop ::
  "Epetra_BlockMap \<Rightarrow> int list \<Rightarrow> int \<Rightarrow> nat \<Rightarrow> int list \<Rightarrow> error + int list" where
  "bondNeighborLoop overlapMap ids j 0 neighborhoodList = Inr neighborhoodList"
| "bondNeighborLoop overlapMap ids j (Suc k) neighborhoodList =
     (case vread ids j of
        Inl e \<Rightarrow> Inl e
      | Inr globalNeighborID \<Rightarrow>
          let localNeighborID = LID overlapMap globalNeighborID in
          if localNeighborID = -1 then
            Inl (RangeError ''Invalid index into rebalancedOneDimensionalOverlapMap'')
          else bondNeighborLoop overlapMap ids (j + 1) k (neighborhoodList @ [localNeighborID]))"

text \<open>
  Lines 594-615: the loop over the owned points. \<^verbatim>\<open>neighborhoodIndex\<close> is the number of
  entries written so far.
\<close>

fun bondTableLoop ::
  "Epetra_BlockMap \<Rightarrow> Epetra_BlockMap \<Rightarrow> int list \<Rightarrow> int list \<Rightarrow> int list \<times> int list
     \<Rightarrow> error + (int list \<times> int list)" where
  "bondTableLoop overlapMap rbm ids [] st = Inr st"
| "bondTableLoop overlapMap rbm ids (globalID # rest) (neighborhoodList, neighborhoodPtr) =
     (let neighborhoodPtr' = neighborhoodPtr @ [int (length neighborhoodList)];
          rebalancedBondMapLocalID = LID rbm globalID in
      if rebalancedBondMapLocalID \<noteq> -1 then
        (case ElementSize rbm rebalancedBondMapLocalID of
           Inl e \<Rightarrow> Inl e
         | Inr numNeighbors \<Rightarrow>
        (case FirstPointInElement rbm rebalancedBondMapLocalID of
           Inl e \<Rightarrow> Inl e
         | Inr offset \<Rightarrow>
        (case bondNeighborLoop overlapMap ids offset (nat numNeighbors)
                (neighborhoodList @ [numNeighbors]) of
           Inl e \<Rightarrow> Inl e
         | Inr neighborhoodList' \<Rightarrow>
             bondTableLoop overlapMap rbm ids rest (neighborhoodList', neighborhoodPtr'))))
      else bondTableLoop overlapMap rbm ids rest (neighborhoodList @ [0], neighborhoodPtr'))"

definition createRebalancedNeighborhoodData ::
  "Epetra_BlockMap \<Rightarrow> Epetra_BlockMap \<Rightarrow> Epetra_BlockMap \<Rightarrow> int list
     \<Rightarrow> error + NeighborhoodData" where
  "createRebalancedNeighborhoodData rebalancedOneDimensionalMap rebalancedOneDimensionalOverlapMap
       rebalancedBondMap rebalancedNeighborGlobalIDs =
     (case ownedIDsLoop rebalancedOneDimensionalOverlapMap
             (MyGlobalElements rebalancedOneDimensionalMap) [] of
        Inl e \<Rightarrow> Inl e
      | Inr ownedIDs \<Rightarrow>
      (case bondTableLoop rebalancedOneDimensionalOverlapMap rebalancedBondMap
              rebalancedNeighborGlobalIDs (MyGlobalElements rebalancedOneDimensionalMap) ([], []) of
        Inl e \<Rightarrow> Inl e
      | Inr (written, neighborhoodPtr) \<Rightarrow>
          let listSize = int (NumMyElements rebalancedOneDimensionalMap)
                           + NumMyPoints rebalancedBondMap in
          (case allocatedList listSize written of
             Inl e \<Rightarrow> Inl e
           | Inr neighborhoodList \<Rightarrow>
               Inr \<lparr>NumOwnedPoints = NumMyElements rebalancedOneDimensionalMap,
                    OwnedIDs = ownedIDs,
                    NeighborhoodPtr = neighborhoodPtr,
                    NeighborhoodListSize = listSize,
                    NeighborhoodList = neighborhoodList\<rparr>)))"

section \<open>createRebalancedContactNeighborhoodData\<close>

text \<open>
  Lines 646-660: the loop over the owned points. A point that is no key of the contact map
  is a \<^verbatim>\<open>RangeError\<close>; the slot of a neighbor is written as the overlap map gives it,
  with no test.
\<close>

fun contactTableLoop ::
  "Epetra_BlockMap \<Rightarrow> (int \<times> int list) list \<Rightarrow> int list \<Rightarrow> int list \<times> int list
     \<Rightarrow> error + (int list \<times> int list)" where
  "contactTableLoop overlapMap contactNeighborGlobalIDs [] st = Inr st"
| "contactTableLoop overlapMap contactNeighborGlobalIDs (globalID # rest)
       (neighborhoodList, neighborhoodPtr) =
     (let neighborhoodPtr' = neighborhoodPtr @ [int (length neighborhoodList)] in
      case map_of contactNeighborGlobalIDs globalID of
        None \<Rightarrow> Inl (RangeError ''Invalid index into contactNeighborGlobalIDs'')
      | Some neighborGlobalIDs \<Rightarrow>
          contactTableLoop overlapMap contactNeighborGlobalIDs rest
            (neighborhoodList @ [int (length neighborGlobalIDs)]
               @ map (LID overlapMap) neighborGlobalIDs,
             neighborhoodPtr'))"

text \<open>Lines 636-639: the list size, one more than its neighbors for every key of the map.\<close>

definition contactNeighborhoodListSize :: "(int \<times> int list) list \<Rightarrow> int" where
  "contactNeighborhoodListSize contactNeighborGlobalIDs =
     fold (\<lambda>(k, neighbors) neighborhoodListSize. neighborhoodListSize + int (length neighbors) + 1)
       contactNeighborGlobalIDs 0"

definition createRebalancedContactNeighborhoodData ::
  "(int \<times> int list) list \<Rightarrow> Epetra_BlockMap \<Rightarrow> Epetra_BlockMap \<Rightarrow> error + NeighborhoodData" where
  "createRebalancedContactNeighborhoodData contactNeighborGlobalIDs rebalancedOneDimensionalMap
       rebalancedOneDimensionalOverlapMap =
     (case ownedIDsLoop rebalancedOneDimensionalOverlapMap
             (MyGlobalElements rebalancedOneDimensionalMap) [] of
        Inl e \<Rightarrow> Inl e
      | Inr ownedIDs \<Rightarrow>
      (case contactTableLoop rebalancedOneDimensionalOverlapMap contactNeighborGlobalIDs
              (MyGlobalElements rebalancedOneDimensionalMap) ([], []) of
        Inl e \<Rightarrow> Inl e
      | Inr (written, neighborhoodPtr) \<Rightarrow>
          let listSize = contactNeighborhoodListSize contactNeighborGlobalIDs in
          (case allocatedList listSize written of
             Inl e \<Rightarrow> Inl e
           | Inr neighborhoodList \<Rightarrow>
               Inr \<lparr>NumOwnedPoints = NumMyElements rebalancedOneDimensionalMap,
                    OwnedIDs = ownedIDs,
                    NeighborhoodPtr = neighborhoodPtr,
                    NeighborhoodListSize = listSize,
                    NeighborhoodList = neighborhoodList\<rparr>)))"

section \<open>The contact manager and its collaborators\<close>

text \<open>
  A \<^verbatim>\<open>Teuchos::ParameterList\<close>, in the order its iterator visits the entries.
  \<^verbatim>\<open>set\<close> replaces the value of a name the list holds and appends a new name;
  \<^verbatim>\<open>sublist\<close> with \<^verbatim>\<open>mustAlreadyExist\<close> throws for a missing name and otherwise
  answers a missing name with an empty list; a name bound to a plain value is no sublist.
\<close>

datatype ParameterEntry =
    PDouble real
  | PInt int
  | PString string
  | PSublist "(string \<times> ParameterEntry) list"

type_synonym ParameterList = "(string \<times> ParameterEntry) list"




text \<open>
  A contact model as the factory returns it: the factory is outside this file, and the
  model is identified here by the parameter list it was created from.
\<close>

datatype ContactModel = ContactModel ParameterList

text \<open>
  A contact block: its name, ID and parameters, the contact model once set, and the
  block's Contact\_Force\_Density field at step N+1 as rows of a global ID and the values
  stored for it, in the block's owned-plus-ghost layout.
\<close>

record ContactBlock =
  blockName :: string
  blockID :: int
  blockParams :: ParameterList
  contactModel :: "ContactModel option"
  contactForceDensity :: "(int \<times> real list) list"

text \<open>
  The members of \<^verbatim>\<open>ContactManager\<close> that the functions of this file read or write
  (the field IDs, which are only passed on to the blocks, are left out). The columns of the
  two mothership multivectors are the vectors that view them.
\<close>

record ContactManager =
  params :: ParameterList
  contactRebalanceFrequency :: int
  contactSearchRadius :: real
  contactBlocks :: "ContactBlock list"
  oneDimensionalMap :: Epetra_BlockMap
  threeDimensionalMap :: Epetra_BlockMap
  oneDimensionalOverlapMap :: Epetra_BlockMap
  bondMap :: Epetra_BlockMap
  threeDimensionalOverlapMap :: Epetra_BlockMap
  oneDimensionalContactMap :: Epetra_BlockMap
  threeDimensionalContactMap :: Epetra_BlockMap
  oneDimensionalOverlapContactMap :: Epetra_BlockMap
  bondContactMap :: Epetra_BlockMap
  oneDimensionalMothershipToContactMothershipImporter :: Epetra_Import
  threeDimensionalMothershipToContactMothershipImporter :: Epetra_Import
  contactBlockIDs :: "real list"
  contactVolume :: "real list"
  contactY :: "real list"
  contactV :: "real list"
  contactContactForce :: "real list"
  contactScratch :: "real list"
  neighborhoodData :: NeighborhoodData
  contactNeighborhoodData :: NeighborhoodData

text \<open>
  The decomposition the load balancer returns (\<^verbatim>\<open>QUICKGRID::Data\<close>), as far as this
  file reads it.
\<close>

record Decomp =
  numPoints :: nat
  myGlobalIDs :: "int list"

text \<open>
  What one call of \<^verbatim>\<open>rebalance\<close> receives from outside this file: the load-balanced
  decomposition, the two arrays of the neighbor search, for every imported vector the
  elements that other ranks hold of its source, and the two operations of a contact block
  that the call uses.
\<close>

record Environment =
  loadBalancedDecomp :: Decomp
  searchOwnedGIDs :: "int list"
  searchNeighborhood :: "int list"
  remoteNumberOfBonds :: "int \<Rightarrow> int list option"
  remoteNeighborGlobalIDs :: "int \<Rightarrow> int list option"
  remoteBlockIDs :: "int \<Rightarrow> real list option"
  remoteVolume :: "int \<Rightarrow> real list option"
  remoteY :: "int \<Rightarrow> real list option"
  remoteV :: "int \<Rightarrow> real list option"
  remoteContactForce :: "int \<Rightarrow> real list option"
  remoteScratch :: "int \<Rightarrow> real list option"
  blockRebalance ::
    "Epetra_BlockMap \<Rightarrow> Epetra_BlockMap \<Rightarrow> Epetra_BlockMap \<Rightarrow> Epetra_BlockMap \<Rightarrow> Epetra_BlockMap
       \<Rightarrow> real list \<Rightarrow> NeighborhoodData \<Rightarrow> ContactBlock \<Rightarrow> ContactBlock"
  blockImportData :: "real list \<Rightarrow> string \<Rightarrow> ContactBlock \<Rightarrow> ContactBlock"

text \<open>
  Modelled from the spec: \<^verbatim>\<open>PdQuickGridDiscretization::getOwnedMap\<close> is outside this
  file. By section 4.5 (Partitioning) it gives the new owned map of the decomposition's
  points, with one or with three components per point.
\<close>

definition getOwnedMap :: "Decomp \<Rightarrow> int \<Rightarrow> Epetra_BlockMap" where
  "getOwnedMap decomp ndf = BlockMap_constant (take (numPoints decomp) (myGlobalIDs decomp)) ndf"

section \<open>rebalance\<close>

text \<open>Lines 313-319: the bonded neighbors that the rebalanced owned map does not hold.\<close>

definition bondedOffProcessorIDs :: "Epetra_BlockMap \<Rightarrow> int list \<Rightarrow> int list" where
  "bondedOffProcessorIDs rodm ids =
     fold (\<lambda>globalID offProcessorIDs.
             if \<not> MyGID rodm globalID then set_insert globalID offProcessorIDs
             else offProcessorIDs) ids []"

text \<open>
  What lines 295-350 compute before any member is assigned: the rebalanced maps and
  importers, the migrated neighbor IDs, the contact neighbors and the overlap maps.
  \<^verbatim>\<open>currentConfigurationDecomp\<close> (lines 405-442) hands the current owned IDs,
  positions and volumes to the load balancer; what the load balancer returns is
  \<open>loadBalancedDecomp\<close> of the environment.
\<close>

record Topology =
  rebalancedOneDimensionalMap :: Epetra_BlockMap
  oneDimensionalMapImporter :: Epetra_Import
  rebalancedThreeDimensionalMap :: Epetra_BlockMap
  threeDimensionalMapImporter :: Epetra_Import
  rebalancedBondMap :: Epetra_BlockMap
  rebalancedNeighborGlobalIDs :: "int list"
  contactNeighborGlobalIDs :: "(int \<times> int list) list"
  offProcessorIDs :: "int list"
  rebalancedOneDimensionalOverlapMap :: Epetra_BlockMap
  rebalancedThreeDimensionalOverlapMap :: Epetra_BlockMap

definition rebalanceTopology :: "Environment \<Rightarrow> ContactManager \<Rightarrow> error + Topology" where
  "rebalanceTopology env s =
     (let rebalancedDecomp = loadBalancedDecomp env;
          rodm = getOwnedMap rebalancedDecomp 1;
          odImporter = Epetra_Import_new rodm (oneDimensionalContactMap s);
          r3dm = getOwnedMap rebalancedDecomp 3;
          tdImporter = Epetra_Import_new r3dm (threeDimensionalContactMap s)
      in
      case createRebalancedBondMap (remoteNumberOfBonds env) (oneDimensionalContactMap s)
             (bondContactMap s) rodm odImporter of
        Inl e \<Rightarrow> Inl e
      | Inr rbm \<Rightarrow>
      (let bondMapImporter = Epetra_Import_new rbm (bondContactMap s) in
       case createRebalancedNeighborGlobalIDList (remoteNeighborGlobalIDs env) (neighborhoodData s)
              (oneDimensionalOverlapContactMap s) (bondContactMap s) rbm bondMapImporter of
         Inl e \<Rightarrow> Inl e
       | Inr ids \<Rightarrow>
       (let bondedOff = bondedOffProcessorIDs rodm ids in
        case contactSearch rodm rbm ids (numPoints rebalancedDecomp) (searchOwnedGIDs env)
               (searchNeighborhood env) ([], []) of
          Inl e \<Rightarrow> Inl e
        | Inr (contactIDs, offProcessorContactIDs) \<Rightarrow>
            let allOff = fold set_insert offProcessorContactIDs bondedOff;
                myGlobalElements = MyGlobalElements rodm @ allOff
            in Inr \<lparr>rebalancedOneDimensionalMap = rodm,
                    oneDimensionalMapImporter = odImporter,
                    rebalancedThreeDimensionalMap = r3dm,
                    threeDimensionalMapImporter = tdImporter,
                    rebalancedBondMap = rbm,
                    rebalancedNeighborGlobalIDs = ids,
                    contactNeighborGlobalIDs = contactIDs,
                    offProcessorIDs = allOff,
                    rebalancedOneDimensionalOverlapMap = BlockMap_constant myGlobalElements 1,
                    rebalancedThreeDimensionalOverlapMap = BlockMap_constant myGlobalElements 3\<rparr>)))"

text \<open>
  Lines 352-361: the two tables are built and assigned, the bond table first. An exception
  leaves the members as they are at that moment, which is the state the error carries.
\<close>

definition rebalanceNeighborhoodData ::
  "ContactManager \<Rightarrow> Epetra_BlockMap \<Rightarrow> Epetra_BlockMap \<Rightarrow> Epetra_BlockMap \<Rightarrow> int list
     \<Rightarrow> (int \<times> int list) list \<Rightarrow> (error \<times> ContactManager) + ContactManager" where
  "rebalanceNeighborhoodData s rodm overlapMap rbm ids contactIDs =
     (case createRebalancedNeighborhoodData rodm overlapMap rbm ids of
        Inl e \<Rightarrow> Inl (e, s)
      | Inr nd \<Rightarrow>
          let s1 = s\<lparr>neighborhoodData := nd\<rparr> in
          (case createRebalancedContactNeighborhoodData contactIDs rodm overlapMap of
             Inl e \<Rightarrow> Inl (e, s1)
           | Inr cnd \<Rightarrow> Inr (s1\<lparr>contactNeighborhoodData := cnd\<rparr>)))"

text \<open>
  Lines 363-403: the two mothership multivectors are rebuilt over the rebalanced maps, each
  new multivector filled with zeros and then with the import of all the columns of the old
  one; the blocks are rebalanced and given volumes and block IDs; the maps and importers
  are replaced.
\<close>

definition rebalanceMothership :: "Environment \<Rightarrow> Topology \<Rightarrow> ContactManager \<Rightarrow> ContactManager" where
  "rebalanceMothership env T s =
     (let rodm = rebalancedOneDimensionalMap T;
          r3dm = rebalancedThreeDimensionalMap T;
          blockIDs' = Import_Insert (remoteBlockIDs env) (contactBlockIDs s)
                        (oneDimensionalMapImporter T) (Epetra_Vector_new rodm);
          volume' = Import_Insert (remoteVolume env) (contactVolume s)
                        (oneDimensionalMapImporter T) (Epetra_Vector_new rodm);
          y' = Import_Insert (remoteY env) (contactY s)
                        (threeDimensionalMapImporter T) (Epetra_Vector_new r3dm);
          v' = Import_Insert (remoteV env) (contactV s)
                        (threeDimensionalMapImporter T) (Epetra_Vector_new r3dm);
          contactForce' = Import_Insert (remoteContactForce env) (contactContactForce s)
                        (threeDimensionalMapImporter T) (Epetra_Vector_new r3dm);
          scratch' = Import_Insert (remoteScratch env) (contactScratch s)
                        (threeDimensionalMapImporter T) (Epetra_Vector_new r3dm);
          blocks1 = map (blockRebalance env rodm (rebalancedOneDimensionalOverlapMap T) r3dm
                           (rebalancedThreeDimensionalOverlapMap T) (rebalancedBondMap T)
                           blockIDs' (contactNeighborhoodData s)) (contactBlocks s);
          blocks2 = map (\<lambda>b. blockImportData env blockIDs' ''Block_Id''
                                 (blockImportData env volume' ''Volume'' b)) blocks1
      in s\<lparr>contactBlockIDs := blockIDs',
            contactVolume := volume',
            contactY := y',
            contactV := v',
            contactContactForce := contactForce',
            contactScratch := scratch',
            contactBlocks := blocks2,
            oneDimensionalContactMap := rodm,
            oneDimensionalOverlapContactMap := rebalancedOneDimensionalOverlapMap T,
            threeDimensionalContactMap := r3dm,
            bondContactMap := rebalancedBondMap T,
            oneDimensionalMothershipToContactMothershipImporter :=
              Epetra_Import_new rodm (oneDimensionalMap s),
            threeDimensionalMothershipToContactMothershipImporter :=
              Epetra_Import_new r3dm (threeDimensionalMap s)\<rparr>)"

definition rebalanceCycle ::
  "Environment \<Rightarrow> ContactManager \<Rightarrow> (error \<times> ContactManager) + ContactManager" where
  "rebalanceCycle env s =
     (case rebalanceTopology env s of
        Inl e \<Rightarrow> Inl (e, s)
      | Inr T \<Rightarrow>
      (case rebalanceNeighborhoodData s (rebalancedOneDimensionalMap T)
              (rebalancedOneDimensionalOverlapMap T) (rebalancedBondMap T)
              (rebalancedNeighborGlobalIDs T) (contactNeighborGlobalIDs T) of
         Inl err \<Rightarrow> Inl err
       | Inr s2 \<Rightarrow> Inr (rebalanceMothership env T s2)))"

text \<open>
  \<^verbatim>\<open>rebalance\<close>, lines 290-293 and the cycle. \<^verbatim>\<open>%\<close> is the truncating remainder of
  C++; with a frequency of 0 it is undefined.
\<close>

definition rebalance ::
  "Environment \<Rightarrow> ContactManager \<Rightarrow> int \<Rightarrow> (error \<times> ContactManager) + ContactManager" where
  "rebalance env s step =
     (if contactRebalanceFrequency s = 0 then Inl (DivideByZero, s)
      else if step smod contactRebalanceFrequency s \<noteq> 0 then Inr s
      else rebalanceCycle env s)"

section \<open>initialize\<close>








section \<open>What a point receives by an import\<close>

text \<open>
  The values of the point with global ID \<open>g\<close> after a vector has been imported into a
  new vector with \<open>c\<close> values per point: the values the source holds for \<open>g\<close>, on this
  rank or on another, and zeros when no rank holds them.
\<close>

definition importedBlock ::
  "(int \<Rightarrow> real list option) \<Rightarrow> Epetra_BlockMap \<Rightarrow> real list \<Rightarrow> nat \<Rightarrow> int \<Rightarrow> real list" where
  "importedBlock remote sourceMap source c g =
     (case distributedView remote sourceMap source g of
        Some b \<Rightarrow> overwriteBlock (replicate c 0) b
      | None \<Rightarrow> replicate c 0)"

section \<open>exportData\<close>

text \<open>
  \<^verbatim>\<open>Update(scalarA, A, scalarThis)\<close> of \<^verbatim>\<open>Epetra_MultiVector\<close>: this vector times
  \<^verbatim>\<open>scalarThis\<close> plus \<^verbatim>\<open>A\<close> times \<^verbatim>\<open>scalarA\<close>. Values are real numbers here, not
  doubles: sums are exact.
\<close>

definition Update :: "real \<Rightarrow> real list \<Rightarrow> real \<Rightarrow> real list \<Rightarrow> real list" where
  "Update scalarA A scalarThis this = map (\<lambda>(t, a). scalarThis * t + scalarA * a) (zip this A)"

text \<open>
  Modelled from the spec: \<^verbatim>\<open>Export(..., importer, Insert)\<close> belongs to the Trilinos
  library. It is the move of section 4.2 in the direction opposite to the importer's, from
  the importer's target map to its source map, with policy Overwrite.
\<close>

definition Export_Insert ::
  "(int \<Rightarrow> 'a list option) \<Rightarrow> 'a list \<Rightarrow> Epetra_Import \<Rightarrow> 'a list \<Rightarrow> 'a list" where
  "Export_Insert remote source importer target =
     Import_Insert remote source
       \<lparr>TargetMap = SourceMap importer, SourceMap = TargetMap importer\<rparr> target"

text \<open>
  Modelled from the spec: \<^verbatim>\<open>ContactBlock::exportData\<close> is outside this file. By section
  6 of the specification a block's force contribution, held in owned-plus-ghost layout, is
  accumulated by global ID into the owned-only vector it is exported to (combine mode
  \<^verbatim>\<open>Add\<close>): every row of the block's field is added to the element of its global ID.
  The rows that the blocks of other ranks hold for points of this rank are \<open>remoteRows\<close>.
\<close>

definition addAt :: "real list \<Rightarrow> nat \<Rightarrow> real list \<Rightarrow> real list" where
  "addAt target offset vals =
     take offset target
       @ map (\<lambda>(t, v). t + v) (zip (drop offset target) vals)
       @ drop (offset + length vals) target"

definition addRow :: "Epetra_BlockMap \<Rightarrow> int \<times> real list \<Rightarrow> real list \<Rightarrow> real list" where
  "addRow m row target =
     (let lid = LID m (fst row) in
      if lid = -1 then target
      else addAt target (nat (sum_list (take (nat lid) (ElementSizeList m))))
             (take (nat (ElementSizeList m ! nat lid)) (snd row)))"

definition blockExportData_Add ::
  "(ContactBlock \<Rightarrow> (int \<times> real list) list) \<Rightarrow> Epetra_BlockMap \<Rightarrow> ContactBlock \<Rightarrow> real list
     \<Rightarrow> real list" where
  "blockExportData_Add remoteRows m b target =
     fold (addRow m) (contactForceDensity b @ remoteRows b) target"

text \<open>Lines 281-285: the loop over the contact blocks.\<close>

fun exportLoop ::
  "(ContactBlock \<Rightarrow> (int \<times> real list) list) \<Rightarrow> Epetra_BlockMap \<Rightarrow> ContactBlock list
     \<Rightarrow> real list \<times> real list \<Rightarrow> real list \<times> real list" where
  "exportLoop remoteRows m [] (force, scratch) = (force, scratch)"
| "exportLoop remoteRows m (b # rest) (force, scratch) =
     (let scratch0 = PutScalar 0 scratch;
          scratch1 = blockExportData_Add remoteRows m b scratch0;
          force1 = Update 1 scratch1 1 force
      in exportLoop remoteRows m rest (force1, scratch1))"

text \<open>
  \<^verbatim>\<open>exportData\<close>, lines 278-288: the manager after the call and the caller's vector
  after the call.
\<close>

definition exportData ::
  "(ContactBlock \<Rightarrow> (int \<times> real list) list) \<Rightarrow> (int \<Rightarrow> real list option) \<Rightarrow> ContactManager
     \<Rightarrow> real list \<Rightarrow> ContactManager \<times> real list" where
  "exportData remoteRows remote s contactForce =
     (let force0 = PutScalar 0 (contactContactForce s);
          (force, scratch) =
             exportLoop remoteRows (threeDimensionalContactMap s) (contactBlocks s)
               (force0, contactScratch s)
      in (s\<lparr>contactContactForce := force, contactScratch := scratch\<rparr>,
          Export_Insert remote force
            (threeDimensionalMothershipToContactMothershipImporter s) contactForce))"

text \<open>What one block adds to a cleared scratch vector.\<close>

definition blockContribution ::
  "(ContactBlock \<Rightarrow> (int \<times> real list) list) \<Rightarrow> ContactManager \<Rightarrow> ContactBlock \<Rightarrow> real list" where
  "blockContribution remoteRows s b =
     blockExportData_Add remoteRows (threeDimensionalContactMap s) b
       (replicate (length (contactScratch s)) 0)"

section \<open>A small decomposition\<close>

text \<open>
  One rank that owns points 1 and 2 and ghosts point 3. Point 1 is bonded to 2, point 2 to
  1 and 3. The contact force of point 1 is not zero. The load balancer returns the owned
  points in the order 2, 1; the search returns 1, 3 and 4 for point 2, and 2 and 4 for
  point 1. No other rank contributes to an import, and the contact blocks are left as they
  are.
\<close>

definition exampleTable :: NeighborhoodData where
  "exampleTable =
     \<lparr>NumOwnedPoints = 2, OwnedIDs = [0, 1], NeighborhoodPtr = [0, 2],
      NeighborhoodListSize = 5, NeighborhoodList = [1, 1, 2, 0, 2]\<rparr>"

definition exampleManager :: ContactManager where
  "exampleManager =
     \<lparr>params = [],
      contactRebalanceFrequency = 2,
      contactSearchRadius = 1,
      contactBlocks = [],
      oneDimensionalMap = BlockMap_constant [1, 2] 1,
      threeDimensionalMap = BlockMap_constant [1, 2] 3,
      oneDimensionalOverlapMap = BlockMap_constant [1, 2, 3] 1,
      bondMap = BlockMap_variable [1, 2] [1, 2],
      threeDimensionalOverlapMap = BlockMap_constant [1, 2, 3] 3,
      oneDimensionalContactMap = BlockMap_constant [1, 2] 1,
      threeDimensionalContactMap = BlockMap_constant [1, 2] 3,
      oneDimensionalOverlapContactMap = BlockMap_constant [1, 2, 3] 1,
      bondContactMap = BlockMap_variable [1, 2] [1, 2],
      oneDimensionalMothershipToContactMothershipImporter =
        Epetra_Import_new (BlockMap_constant [1, 2] 1) (BlockMap_constant [1, 2] 1),
      threeDimensionalMothershipToContactMothershipImporter =
        Epetra_Import_new (BlockMap_constant [1, 2] 3) (BlockMap_constant [1, 2] 3),
      contactBlockIDs = [1, 2],
      contactVolume = [3, 4],
      contactY = [0, 0, 0, 1, 0, 0],
      contactV = [0, 0, 0, 0, 0, 5],
      contactContactForce = [7, 0, 0, 0, 0, 0],
      contactScratch = [7, 0, 0, 0, 0, 0],
      neighborhoodData = exampleTable,
      contactNeighborhoodData = exampleTable\<rparr>"

definition exampleEnvironment :: Environment where
  "exampleEnvironment =
     \<lparr>loadBalancedDecomp = \<lparr>numPoints = 2, myGlobalIDs = [2, 1]\<rparr>,
      searchOwnedGIDs = [2, 1],
      searchNeighborhood = [3, 1, 3, 4, 2, 2, 4],
      remoteNumberOfBonds = (\<lambda>g. None),
      remoteNeighborGlobalIDs = (\<lambda>g. None),
      remoteBlockIDs = (\<lambda>g. None),
      remoteVolume = (\<lambda>g. None),
      remoteY = (\<lambda>g. None),
      remoteV = (\<lambda>g. None),
      remoteContactForce = (\<lambda>g. None),
      remoteScratch = (\<lambda>g. None),
      blockRebalance = (\<lambda>m1 m2 m3 m4 m5 ids t b. b),
      blockImportData = (\<lambda>v field b. b)\<rparr>"

text \<open>The same rank after the rebalance of step 4.\<close>

definition exampleRebalanced :: ContactManager where
  "exampleRebalanced =
     exampleManager
       \<lparr>oneDimensionalContactMap := BlockMap_constant [2, 1] 1,
        threeDimensionalContactMap := BlockMap_constant [2, 1] 3,
        oneDimensionalOverlapContactMap := BlockMap_constant [2, 1, 3, 4] 1,
        bondContactMap := BlockMap_variable [2, 1] [2, 1],
        oneDimensionalMothershipToContactMothershipImporter :=
          Epetra_Import_new (BlockMap_constant [2, 1] 1) (BlockMap_constant [1, 2] 1),
        threeDimensionalMothershipToContactMothershipImporter :=
          Epetra_Import_new (BlockMap_constant [2, 1] 3) (BlockMap_constant [1, 2] 3),
        contactBlockIDs := [2, 1],
        contactVolume := [4, 3],
        contactY := [1, 0, 0, 0, 0, 0],
        contactV := [0, 0, 5, 0, 0, 0],
        contactContactForce := [0, 0, 0, 7, 0, 0],
        contactScratch := [0, 0, 0, 7, 0, 0],
        neighborhoodData :=
          \<lparr>NumOwnedPoints = 2, OwnedIDs = [0, 1], NeighborhoodPtr = [0, 3],
           NeighborhoodListSize = 5, NeighborhoodList = [2, 1, 2, 1, 0]\<rparr>,
        contactNeighborhoodData :=
          \<lparr>NumOwnedPoints = 2, OwnedIDs = [0, 1], NeighborhoodPtr = [0, 2],
           NeighborhoodListSize = 4, NeighborhoodList = [1, 3, 1, 3]\<rparr>\<rparr>"

text \<open>
  A manager with the two blocks \<^verbatim>\<open>block_1\<close> and \<^verbatim>\<open>block_7\<close> and one contact model
  that gives a spring constant only, and a factory that accepts every parameter list.
\<close>

definition exampleBlock :: "string \<Rightarrow> int \<Rightarrow> ContactBlock" where
  "exampleBlock name ident =
     \<lparr>blockName = name, blockID = ident, blockParams = [], contactModel = None,
      contactForceDensity = []\<rparr>"




text \<open>
  The small decomposition with two blocks: the first holds a force of 1 on the first
  component of point 1 and of 2 on the second component of point 2, the second a force of
  10 on the first component of point 1.
\<close>

definition exampleExporting :: ContactManager where
  "exampleExporting =
     exampleManager\<lparr>contactBlocks :=
       [(exampleBlock ''block_1'' 1)\<lparr>contactForceDensity := [(1, [1, 0, 0]), (2, [0, 2, 0])]\<rparr>,
        (exampleBlock ''block_7'' 7)\<lparr>contactForceDensity := [(1, [10, 0, 0])]\<rparr>]\<rparr>"

text \<open>A single rank: no rows and no vector elements come from other ranks.\<close>

definition noRemoteRows :: "ContactBlock \<Rightarrow> (int \<times> real list) list" where
  "noRemoteRows b = []"

definition noRemote :: "int \<Rightarrow> real list option" where
  "noRemote g = None"


text \<open>
  The manager with the two exporting blocks after \<^verbatim>\<open>exportData\<close>, and that manager after
  the rebalance of step 4: the new decomposition lists point 2 before point 1.
\<close>

definition exampleExported :: ContactManager where
  "exampleExported =
     exampleExporting\<lparr>contactContactForce := [11, 0, 0, 0, 2, 0],
                      contactScratch := [10, 0, 0, 0, 0, 0]\<rparr>"

definition exampleExportedRebalanced :: ContactManager where
  "exampleExportedRebalanced =
     exampleRebalanced\<lparr>contactBlocks := contactBlocks exampleExporting,
                       contactContactForce := [0, 2, 0, 11, 0, 0],
                       contactScratch := [0, 0, 0, 10, 0, 0]\<rparr>"

section \<open>Facts about the map model\<close>

lemma LID_from_absent: "0 \<le> i \<Longrightarrow> (LID_from xs g i = -1) = (g \<notin> set xs)"
proof (induction xs arbitrary: i)
  case Nil
  show ?case by simp
next
  case (Cons x xs)
  from Cons.prems have "0 \<le> i + 1" by simp
  from Cons.IH [OF this] Cons.prems show ?case by auto
qed

lemma LID_absent: "(LID m g = -1) = (g \<notin> set (MyGlobalElements m))"
  by (simp add: LID_def LID_from_absent)

lemma LID_from_range:
  "g \<in> set xs \<Longrightarrow> i \<le> LID_from xs g i \<and> LID_from xs g i < i + int (length xs)
     \<and> xs ! nat (LID_from xs g i - i) = g"
proof (induction xs arbitrary: i)
  case Nil
  then show ?case by simp
next
  case (Cons x xs)
  show ?case
  proof (cases "x = g")
    case True
    then show ?thesis by simp
  next
    case False
    with Cons.prems have "g \<in> set xs" by simp
    from Cons.IH [OF this, of "i + 1"]
    have ih: "i + 1 \<le> LID_from xs g (i + 1)" "LID_from xs g (i + 1) < i + 1 + int (length xs)"
      "xs ! nat (LID_from xs g (i + 1) - (i + 1)) = g"
      by simp_all
    from ih(1) have "nat (LID_from xs g (i + 1) - i) = Suc (nat (LID_from xs g (i + 1) - (i + 1)))"
      by arith
    with ih False show ?thesis by simp
  qed
qed

lemma LID_present:
  "g \<in> set (MyGlobalElements m) \<Longrightarrow>
     0 \<le> LID m g \<and> LID m g < int (NumMyElements m) \<and> GID m (LID m g) = g"
  using LID_from_range [of g "MyGlobalElements m" 0]
  by (simp add: LID_def GID_def NumMyElements_def)

section \<open>Facts about contactSearch\<close>

lemma retainLoop_encoded:
  "retainLoop rodm bonded (pre @ ns @ post) (int (length pre)) (length ns) (contactList, offIDs)
     = Inr (int (length pre) + int (length ns),
            contactList @ filter (\<lambda>N. N \<notin> set bonded) ns,
            fold (ghostInsert rodm) (filter (\<lambda>N. N \<notin> set bonded) ns) offIDs)"
proof (induction ns arbitrary: pre contactList offIDs)
  case Nil
  show ?case by simp
next
  case (Cons n ns)
  have rd: "vread (pre @ (n # ns) @ post) (int (length pre)) = Inr n"
    by (simp add: vread_def)
  have sh: "pre @ (n # ns) @ post = (pre @ [n]) @ ns @ post" by simp
  have ix: "int (length pre) + 1 = int (length (pre @ [n]))" by simp
  show ?case
    unfolding length_Cons retainLoop.simps rd sum.case
    unfolding sh ix Cons.IH
    by (simp add: ghostInsert_def [of rodm n offIDs])
qed

lemma contactSearchLoop_encoded:
  assumes "contactSearchLoop rodm rbm ids (pre @ encodeNeighborhood (map snd es))
             (map fst es) (int (length pre)) (cn, off) = Inr (cn', off')"
      and "distinct (map fst es)"
      and "\<forall>g \<in> fst ` set es. map_of cn g = None"
  shows "(\<forall>(P, returned) \<in> set es. \<exists>bonded. bondedNeighbors rbm ids P = Inr bonded \<and>
            map_of cn' P = Some (filter (\<lambda>N. N \<notin> set bonded) returned))
         \<and> (\<forall>g. g \<notin> fst ` set es \<longrightarrow> map_of cn' g = map_of cn g)"
  using assms
proof (induction es arbitrary: pre cn off)
  case Nil
  then show ?case by simp
next
  case (Cons a es)
  obtain P ns where a: "a = (P, ns)" by (cases a)
  define sn where "sn = pre @ encodeNeighborhood (map snd (a # es))"
  have sn1: "sn = pre @ [int (length ns)] @ ns @ encodeNeighborhood (map snd es)"
    unfolding sn_def a encodeNeighborhood_def by simp
  have sn2: "sn = (pre @ [int (length ns)]) @ ns @ encodeNeighborhood (map snd es)"
    unfolding sn1 by simp
  have sn3: "sn = (pre @ int (length ns) # ns) @ encodeNeighborhood (map snd es)"
    unfolding sn1 by simp
  have rd: "vread sn (int (length pre)) = Inr (int (length ns))"
    unfolding sn1 by (simp add: vread_def)
  have none: "map_of cn P = None" using Cons.prems(3) by (simp add: a)
  have run: "contactSearchLoop rodm rbm ids sn (map fst (a # es)) (int (length pre)) (cn, off)
               = Inr (cn', off')"
    using Cons.prems(1) unfolding sn_def .
  then obtain bonded where
    bonded: "bondedNeighbors rbm ids P = Inr bonded"
    by (auto simp: a split: sum.splits)
  let ?cn1 = "AList.update P (filter (\<lambda>N. N \<notin> set bonded) ns) cn"
  let ?off1 = "fold (ghostInsert rodm) (filter (\<lambda>N. N \<notin> set bonded) ns) off"
  have ret: "retainLoop rodm bonded sn (int (length pre) + 1) (length ns) ([], off)
       = Inr (int (length (pre @ int (length ns) # ns)), filter (\<lambda>N. N \<notin> set bonded) ns, ?off1)"
    unfolding sn2
    using retainLoop_encoded [of rodm bonded "pre @ [int (length ns)]" ns
        "encodeNeighborhood (map snd es)" "[]" off]
    by (simp add: ac_simps)
  have "contactSearchLoop rodm rbm ids sn (map fst es)
          (int (length (pre @ int (length ns) # ns))) (?cn1, ?off1) = Inr (cn', off')"
    using run by (simp add: a bonded rd none ret del: length_append)
  then have step: "contactSearchLoop rodm rbm ids
                ((pre @ int (length ns) # ns) @ encodeNeighborhood (map snd es))
                (map fst es) (int (length (pre @ int (length ns) # ns))) (?cn1, ?off1)
              = Inr (cn', off')"
    unfolding sn3 .
  have d: "distinct (map fst es)" and Pnot: "P \<notin> fst ` set es"
    using Cons.prems(2) by (auto simp: a)
  have fresh: "\<forall>g \<in> fst ` set es. map_of ?cn1 g = None"
    using Cons.prems(3) Pnot by (auto simp: update_conv')
  from Cons.IH [OF step d fresh]
  have ih1: "\<forall>(Q, returned) \<in> set es. \<exists>b. bondedNeighbors rbm ids Q = Inr b \<and>
               map_of cn' Q = Some (filter (\<lambda>N. N \<notin> set b) returned)"
    and ih2: "\<forall>g. g \<notin> fst ` set es \<longrightarrow> map_of cn' g = map_of ?cn1 g"
    by blast+
  have headP: "map_of cn' P = Some (filter (\<lambda>N. N \<notin> set bonded) ns)"
    using ih2 Pnot by (simp add: update_conv')
  have frame: "\<forall>g. g \<notin> fst ` set (a # es) \<longrightarrow> map_of cn' g = map_of cn g"
    using ih2 by (auto simp: a update_conv')
  show ?case
    using ih1 headP bonded frame by (auto simp: a)
qed

section \<open>The bonded neighbors of a point\<close>

lemma bondedLoop_slice:
  assumes "bondedLoop ids j k acc = Inr r"
  shows "r = acc @ take k (drop (nat j) ids) \<and> length r = length acc + k"
  using assms
proof (induction k arbitrary: j acc)
  case 0
  then show ?case by simp
next
  case (Suc k)
  from Suc.prems obtain x where rd: "vread ids j = Inr x"
    and run: "bondedLoop ids (j + 1) k (acc @ [x]) = Inr r"
    by (auto split: sum.splits)
  from rd have j0: "0 \<le> j" and jl: "nat j < length ids" and x: "x = ids ! nat j"
    by (auto simp: vread_def split: if_splits)
  from j0 have nj: "nat (j + 1) = Suc (nat j)" by simp
  note ih = Suc.IH [OF run, unfolded nj]
  have r: "r = (acc @ [x]) @ take k (drop (Suc (nat j)) ids)"
    by (rule ih [THEN conjunct1])
  have l: "length r = length (acc @ [x]) + k"
    by (rule ih [THEN conjunct2])
  have "take (Suc k) (drop (nat j) ids) = x # take k (drop (Suc (nat j)) ids)"
    using jl x by (simp add: Cons_nth_drop_Suc [symmetric])
  then have "acc @ take (Suc k) (drop (nat j) ids) = (acc @ [x]) @ take k (drop (Suc (nat j)) ids)"
    by simp
  with r have "r = acc @ take (Suc k) (drop (nat j) ids)" by simp
  moreover from l have "length r = length acc + Suc k" by simp
  ultimately show ?case by blast
qed

lemma bondedNeighbors_block:
  assumes "bondedNeighbors rbm ids P = Inr bonded"
  shows "(P \<notin> set (MyGlobalElements rbm) \<longrightarrow> bonded = [])
       \<and> (P \<in> set (MyGlobalElements rbm) \<longrightarrow>
            (\<exists>l < length (MyGlobalElements rbm).
               MyGlobalElements rbm ! l = P \<and> LID rbm P = int l
               \<and> l < length (ElementSizeList rbm)
               \<and> bonded = take (nat (ElementSizeList rbm ! l))
                             (drop (nat (sum_list (take l (ElementSizeList rbm)))) ids)
               \<and> length bonded = nat (ElementSizeList rbm ! l)))"
proof (cases "P \<in> set (MyGlobalElements rbm)")
  case False
  then have "LID rbm P = -1" by (simp add: LID_absent)
  with assms False show ?thesis by (simp add: bondedNeighbors_def)
next
  case True
  then have ne: "LID rbm P \<noteq> -1" by (simp add: LID_absent)
  let ?l = "nat (LID rbm P)"
  from LID_present [OF True] have l0: "0 \<le> LID rbm P"
    and ln: "?l < length (MyGlobalElements rbm)"
    and lg: "MyGlobalElements rbm ! ?l = P"
    by (auto simp: NumMyElements_def GID_def split: if_splits)
  from assms ne obtain off c where
    fp: "FirstPointInElement rbm (LID rbm P) = Inr off" and
    es: "ElementSize rbm (LID rbm P) = Inr c" and
    lp: "bondedLoop ids off (nat c) [] = Inr bonded"
    by (auto simp: bondedNeighbors_def Let_def split: sum.splits)
  from fp have off: "off = sum_list (take ?l (ElementSizeList rbm))"
    by (auto simp: FirstPointInElement_def split: if_splits)
  from es have ls: "?l < length (ElementSizeList rbm)" and c: "c = ElementSizeList rbm ! ?l"
    by (auto simp: ElementSize_def vread_def split: if_splits)
  note sl = bondedLoop_slice [OF lp]
  have b: "bonded = take (nat c) (drop (nat off) ids)"
    using sl [THEN conjunct1] by simp
  have bl: "length bonded = nat c"
    using sl [THEN conjunct2] by simp
  have "?l < length (MyGlobalElements rbm) \<and> MyGlobalElements rbm ! ?l = P
        \<and> LID rbm P = int ?l \<and> ?l < length (ElementSizeList rbm)
        \<and> bonded = take (nat (ElementSizeList rbm ! ?l))
                      (drop (nat (sum_list (take ?l (ElementSizeList rbm)))) ids)
        \<and> length bonded = nat (ElementSizeList rbm ! ?l)"
  proof -
    from l0 have il: "LID rbm P = int ?l" by simp
    from ln lg il ls b bl show ?thesis unfolding c off by blast
  qed
  with True show ?thesis by blast
qed

section \<open>Contact and bond neighbors are disjoint\<close>

text \<open>
  C1. The range query returned, for each point of the search, the list paired with it in
  \<open>entries\<close>, laid out in the flat search array. When \<^verbatim>\<open>contactSearch\<close>, started
  with an empty contact map, returns, the bonded neighbors of every such point \<open>P\<close> are
  \<open>P\<close>'s element of the migrated neighbor-ID vector: none when the rebalanced bond map
  has no entry for \<open>P\<close>, and otherwise, with \<open>P\<close> in slot \<open>l\<close> of the bond map, the
  whole run of as many IDs as slot \<open>l\<close> has points, starting where the points of the
  slots before \<open>l\<close> end. The contact list of \<open>P\<close> is the returned list without these
  IDs, in the order returned: a returned neighbor is retained if and only if it is not
  one of them, and no retained neighbor is one of them.
\<close>

theorem contactSearch_retains_exactly_unbonded:
  assumes "contactSearch rodm rbm ids (length entries) (map fst entries)
             (encodeNeighborhood (map snd entries)) ([], []) = Inr (cn, off)"
      and "distinct (map fst entries)"
      and "(P, returned) \<in> set entries"
  shows "\<exists>bonded retained.
           bondedNeighbors rbm ids P = Inr bonded \<and>
           (P \<notin> set (MyGlobalElements rbm) \<longrightarrow> bonded = []) \<and>
           (P \<in> set (MyGlobalElements rbm) \<longrightarrow>
              (\<exists>l < length (MyGlobalElements rbm).
                 MyGlobalElements rbm ! l = P \<and> LID rbm P = int l
                 \<and> l < length (ElementSizeList rbm)
                 \<and> bonded = take (nat (ElementSizeList rbm ! l))
                               (drop (nat (sum_list (take l (ElementSizeList rbm)))) ids)
                 \<and> length bonded = nat (ElementSizeList rbm ! l))) \<and>
           map_of cn P = Some retained \<and>
           retained = filter (\<lambda>N. N \<notin> set bonded) returned \<and>
           (\<forall>N. N \<in> set retained \<longleftrightarrow> N \<in> set returned \<and> N \<notin> set bonded) \<and>
           set retained \<inter> set bonded = {}"
proof -
  from assms(1) have loop:
    "contactSearchLoop rodm rbm ids ([] @ encodeNeighborhood (map snd entries))
       (map fst entries) (int (length ([]::int list))) ([], []) = Inr (cn, off)"
    by (simp add: contactSearch_def)
  have "\<forall>g \<in> fst ` set entries. map_of ([]::(int \<times> int list) list) g = None" by simp
  from contactSearchLoop_encoded [OF loop assms(2) this] assms(3)
  obtain bonded where b: "bondedNeighbors rbm ids P = Inr bonded"
    and r: "map_of cn P = Some (filter (\<lambda>N. N \<notin> set bonded) returned)"
    by blast
  note blk = bondedNeighbors_block [OF b]
  have m: "\<forall>N. N \<in> set (filter (\<lambda>N. N \<notin> set bonded) returned)
                 \<longleftrightarrow> N \<in> set returned \<and> N \<notin> set bonded" by auto
  have d: "set (filter (\<lambda>N. N \<notin> set bonded) returned) \<inter> set bonded = {}" by auto
  from b blk r m d show ?thesis by blast
qed

text \<open>
  Two owned points 1 and 2 bonded to each other; the search returns 2 and 3 for point 1
  and 1 and 3 for point 2. Point 1 is in slot 0 of the bond map, and its bonded neighbors
  are the first entry of the ID vector, point 2. Point 3 is the only contact neighbor of
  both points, and the only off-processor contact ID.
\<close>

theorem contactSearch_retains_exactly_unbonded_witness:
  "contactSearch (BlockMap_constant [1, 2] 1) (BlockMap_variable [1, 2] [1, 1]) [2, 1]
       (length [(1::int, [2, 3::int]), (2, [1, 3])]) (map fst [(1::int, [2, 3::int]), (2, [1, 3])])
       (encodeNeighborhood (map snd [(1::int, [2, 3::int]), (2, [1, 3])])) ([], [])
     = Inr ([(1, [3]), (2, [3])], [3])
   \<and> distinct (map fst [(1::int, [2, 3::int]), (2, [1, 3])])
   \<and> (1, [2, 3]) \<in> set [(1::int, [2, 3::int]), (2, [1, 3])]
   \<and> bondedNeighbors (BlockMap_variable [1, 2] [1, 1]) [2, 1] 1 = Inr [2]
   \<and> take (nat (ElementSizeList (BlockMap_variable [1, 2] [1, 1]) ! 0))
        (drop (nat (sum_list (take 0 (ElementSizeList (BlockMap_variable [1, 2] [1, 1])))))
           [2, 1::int]) = [2]
   \<and> (\<exists>bonded retained.
         bondedNeighbors (BlockMap_variable [1, 2] [1, 1]) [2, 1] 1 = Inr bonded \<and>
         (1 \<notin> set (MyGlobalElements (BlockMap_variable [1, 2] [1, 1])) \<longrightarrow> bonded = []) \<and>
         (1 \<in> set (MyGlobalElements (BlockMap_variable [1, 2] [1, 1])) \<longrightarrow>
            (\<exists>l < length (MyGlobalElements (BlockMap_variable [1, 2] [1, 1])).
               MyGlobalElements (BlockMap_variable [1, 2] [1, 1]) ! l = 1
               \<and> LID (BlockMap_variable [1, 2] [1, 1]) 1 = int l
               \<and> l < length (ElementSizeList (BlockMap_variable [1, 2] [1, 1]))
               \<and> bonded = take (nat (ElementSizeList (BlockMap_variable [1, 2] [1, 1]) ! l))
                             (drop (nat (sum_list
                                (take l (ElementSizeList (BlockMap_variable [1, 2] [1, 1])))))
                                [2, 1])
               \<and> length bonded = nat (ElementSizeList (BlockMap_variable [1, 2] [1, 1]) ! l))) \<and>
         map_of [(1, [3]), (2, [3::int])] (1::int) = Some retained \<and>
         retained = filter (\<lambda>N. N \<notin> set bonded) [2, 3] \<and>
         (\<forall>N. N \<in> set retained \<longleftrightarrow> N \<in> set [2, 3] \<and> N \<notin> set bonded) \<and>
         set retained \<inter> set bonded = {})"
proof -
  have run: "contactSearch (BlockMap_constant [1, 2] 1) (BlockMap_variable [1, 2] [1, 1]) [2, 1]
       (length [(1::int, [2, 3::int]), (2, [1, 3])]) (map fst [(1::int, [2, 3::int]), (2, [1, 3])])
       (encodeNeighborhood (map snd [(1::int, [2, 3::int]), (2, [1, 3])])) ([], [])
     = Inr ([(1, [3]), (2, [3])], [3])"
    by code_simp
  have d: "distinct (map fst [(1::int, [2, 3::int]), (2, [1, 3])])" by simp
  have m: "(1, [2, 3]) \<in> set [(1::int, [2, 3::int]), (2, [1, 3])]" by simp
  have b: "bondedNeighbors (BlockMap_variable [1, 2] [1, 1]) [2, 1] 1 = Inr [2]" by code_simp
  have t: "take (nat (ElementSizeList (BlockMap_variable [1, 2] [1, 1]) ! 0))
        (drop (nat (sum_list (take 0 (ElementSizeList (BlockMap_variable [1, 2] [1, 1])))))
           [2, 1::int]) = [2]"
    by (simp add: BlockMap_variable_def)
  from contactSearch_retains_exactly_unbonded [OF run d m] run d m b t
  show ?thesis by blast
qed

section \<open>The rebalanced bond map\<close>

lemma rebalancedBondMapLoop_kept:
  assumes "rebalancedBondMapLoop gids rnb [i ..< n] (numMy, mge, esl, numZero)
             = Inr (numMy', mge', esl', numZero')"
      and "i \<le> n" and "n \<le> length gids"
      and "numMy = int (length kept)" and "numZero = int i - int (length kept)"
      and "take (length kept) mge = map fst kept" and "take (length kept) esl = map snd kept"
  shows "\<exists>kept'. kept' = kept @ filter (\<lambda>(g, c). 0 < c) (zip (drop i (take n gids)) (drop i rnb))
           \<and> numMy' = int (length kept') \<and> numZero' = int n - int (length kept')
           \<and> take (length kept') mge' = map fst kept' \<and> take (length kept') esl' = map snd kept'"
  using assms
proof (induction "n - i" arbitrary: i numMy mge esl numZero kept)
  case 0
  then have "i = n" by simp
  with "0.prems" show ?case by simp
next
  case (Suc d)
  then have lt: "i < n" and d: "d = n - Suc i" by simp_all
  have upt: "[i ..< n] = i # [Suc i ..< n]" using lt by (rule upt_conv_Cons)
  have ig: "i < length gids" using lt Suc.prems(3) by simp
  from Suc.prems(1) obtain c where rc: "vread rnb (int i) = Inr c"
    unfolding upt by (auto split: sum.splits)
  then have ir: "i < length rnb" and c: "c = rnb ! i"
    by (auto simp: vread_def split: if_splits)
  have dg: "drop i (take n gids) = gids ! i # drop (Suc i) (take n gids)"
    using ig lt by (simp add: Cons_nth_drop_Suc [symmetric])
  have dr: "drop i rnb = c # drop (Suc i) rnb"
    using ir c by (simp add: Cons_nth_drop_Suc [symmetric])
  show ?case
  proof (cases "0 < c")
    case False
    have run: "rebalancedBondMapLoop gids rnb [Suc i ..< n] (numMy, mge, esl, numZero + 1)
                 = Inr (numMy', mge', esl', numZero')"
      using Suc.prems(1) False unfolding upt by (simp add: rc)
    have z: "numZero + 1 = int (Suc i) - int (length kept)" using Suc.prems(5) by simp
    from Suc.hyps(1) [OF d run _ Suc.prems(3) Suc.prems(4) z Suc.prems(6) Suc.prems(7)] lt
    show ?thesis unfolding dg dr using False by simp
  next
    case True
    have rg: "vread gids (int i) = Inr (gids ! i)" using ig by (simp add: vread_def)
    let ?k = "length kept"
    have idx: "int i - numZero = int ?k" using Suc.prems(5) by simp
    from Suc.prems(1) True obtain mge1 esl1 where
      w1: "vwrite mge (int ?k) (gids ! i) = Inr mge1" and
      w2: "vwrite esl (int ?k) c = Inr esl1" and
      run: "rebalancedBondMapLoop gids rnb [Suc i ..< n] (numMy + 1, mge1, esl1, numZero)
              = Inr (numMy', mge', esl', numZero')"
      unfolding upt by (auto simp: rc rg idx split: sum.splits)
    from w1 have k1: "?k < length mge" and m1: "mge1 = mge[?k := gids ! i]"
      by (auto simp: vwrite_def split: if_splits)
    from w2 have k2: "?k < length esl" and e1: "esl1 = esl[?k := c]"
      by (auto simp: vwrite_def split: if_splits)
    let ?kept1 = "kept @ [(gids ! i, c)]"
    have n1: "numMy + 1 = int (length ?kept1)" using Suc.prems(4) by simp
    have z1: "numZero = int (Suc i) - int (length ?kept1)" using Suc.prems(5) by simp
    have t1: "take (length ?kept1) mge1 = map fst ?kept1"
      using k1 Suc.prems(6) by (simp add: m1 take_Suc_conv_app_nth)
    have t2: "take (length ?kept1) esl1 = map snd ?kept1"
      using k2 Suc.prems(7) by (simp add: e1 take_Suc_conv_app_nth)
    from Suc.hyps(1) [OF d run _ Suc.prems(3) n1 z1 t1 t2] lt
    show ?thesis unfolding dg dr using True by simp
  qed
qed

lemma rebalancedBondMapArrays_kept:
  assumes "rebalancedBondMapArrays rodm rnb = Inr (numMy, mge, esl, numZero)"
  shows "numMy = int (length (filter (\<lambda>(g, c). 0 < c) (zip (MyGlobalElements rodm) rnb)))"
    and "numZero = int (NumMyElements rodm) - numMy"
    and "take (nat numMy) mge = map fst (filter (\<lambda>(g, c). 0 < c) (zip (MyGlobalElements rodm) rnb))"
    and "take (nat numMy) esl = map snd (filter (\<lambda>(g, c). 0 < c) (zip (MyGlobalElements rodm) rnb))"
proof -
  let ?gids = "MyGlobalElements rodm"
  let ?n = "length ?gids"
  from assms have run: "rebalancedBondMapLoop ?gids rnb [0 ..< ?n]
      (0, replicate ?n 0, replicate ?n 0, 0) = Inr (numMy, mge, esl, numZero)"
    by (simp add: rebalancedBondMapArrays_def NumMyElements_def Let_def)
  define K where "K = filter (\<lambda>(g, c). 0 < c) (zip ?gids rnb)"
  have zt: "zip (take ?n ?gids) rnb = zip ?gids rnb" by simp
  from rebalancedBondMapLoop_kept [OF run, of "[]"]
  have a: "numMy = int (length K)" and b: "numZero = int ?n - int (length K)"
    and c: "take (length K) mge = map fst K" and d: "take (length K) esl = map snd K"
    unfolding K_def by simp_all
  show "numMy = int (length (filter (\<lambda>(g, c). 0 < c) (zip (MyGlobalElements rodm) rnb)))"
    using a unfolding K_def .
  show "numZero = int (NumMyElements rodm) - numMy"
    using a b by (simp add: NumMyElements_def)
  show "take (nat numMy) mge = map fst (filter (\<lambda>(g, c). 0 < c) (zip (MyGlobalElements rodm) rnb))"
    using c unfolding a K_def by simp
  show "take (nat numMy) esl = map snd (filter (\<lambda>(g, c). 0 < c) (zip (MyGlobalElements rodm) rnb))"
    using d unfolding a K_def by simp
qed

lemma constructRebalancedBondMap_kept:
  assumes "constructRebalancedBondMap rodm rnb = Inr rbm"
  shows "MyGlobalElements rbm = map fst (filter (\<lambda>(g, c). 0 < c) (zip (MyGlobalElements rodm) rnb))"
    and "ElementSizeList rbm = map snd (filter (\<lambda>(g, c). 0 < c) (zip (MyGlobalElements rodm) rnb))"
proof -
  from assms obtain numMy mge esl numZero where
    arr: "rebalancedBondMapArrays rodm rnb = Inr (numMy, mge, esl, numZero)" and
    rbm: "rbm = BlockMap_variable (take (nat numMy) mge) (take (nat numMy) esl)"
    by (auto simp: constructRebalancedBondMap_def split: sum.splits)
  from rebalancedBondMapArrays_kept(3) [OF arr] rbm
  show "MyGlobalElements rbm = map fst (filter (\<lambda>(g, c). 0 < c) (zip (MyGlobalElements rodm) rnb))"
    by (simp add: BlockMap_variable_def)
  from rebalancedBondMapArrays_kept(4) [OF arr] rbm
  show "ElementSizeList rbm = map snd (filter (\<lambda>(g, c). 0 < c) (zip (MyGlobalElements rodm) rnb))"
    by (simp add: BlockMap_variable_def)
qed

text \<open>
  C4. When \<^verbatim>\<open>createRebalancedBondMap\<close> returns a bond map, that map holds, in the order
  of the rebalanced owned map, exactly the points whose migrated number of bonds is
  positive, each with that number as its element size; no element size is zero or less;
  and \<^verbatim>\<open>numPointsWithZeroNeighbors\<close> counts the owned points that were left out.
\<close>

theorem createRebalancedBondMap_keeps_positive_counts:
  assumes "createRebalancedBondMap remote odcm bcm rodm importer = Inr rbm"
  shows "\<exists>rnb numMyElements mge esl numPointsWithZeroNeighbors.
           rebalancedNumberOfBonds remote odcm bcm rodm importer = Inr rnb \<and>
           rebalancedBondMapArrays rodm rnb
             = Inr (numMyElements, mge, esl, numPointsWithZeroNeighbors) \<and>
           MyGlobalElements rbm
             = map fst (filter (\<lambda>(g, c). 0 < c) (zip (MyGlobalElements rodm) rnb)) \<and>
           ElementSizeList rbm
             = map snd (filter (\<lambda>(g, c). 0 < c) (zip (MyGlobalElements rodm) rnb)) \<and>
           (\<forall>g. g \<in> set (MyGlobalElements rbm) \<longleftrightarrow>
                  (\<exists>c. (g, c) \<in> set (zip (MyGlobalElements rodm) rnb) \<and> 0 < c)) \<and>
           (\<forall>sz \<in> set (ElementSizeList rbm). 0 < sz) \<and>
           numMyElements = int (NumMyElements rbm) \<and>
           numPointsWithZeroNeighbors = int (NumMyElements rodm) - int (NumMyElements rbm)"
proof -
  from assms obtain rnb where
    rnb: "rebalancedNumberOfBonds remote odcm bcm rodm importer = Inr rnb" and
    con: "constructRebalancedBondMap rodm rnb = Inr rbm"
    by (auto simp: createRebalancedBondMap_def split: sum.splits)
  from con obtain numMy mge esl numZero where
    arr: "rebalancedBondMapArrays rodm rnb = Inr (numMy, mge, esl, numZero)"
    by (auto simp: constructRebalancedBondMap_def split: sum.splits)
  note g = constructRebalancedBondMap_kept(1) [OF con]
  note e = constructRebalancedBondMap_kept(2) [OF con]
  have mem: "\<forall>g. g \<in> set (MyGlobalElements rbm) \<longleftrightarrow>
                  (\<exists>c. (g, c) \<in> set (zip (MyGlobalElements rodm) rnb) \<and> 0 < c)"
    unfolding g by force
  have pos: "\<forall>sz \<in> set (ElementSizeList rbm). 0 < sz"
    unfolding e by auto
  have n1: "numMy = int (NumMyElements rbm)"
    using rebalancedBondMapArrays_kept(1) [OF arr] by (simp add: NumMyElements_def g)
  have n2: "numZero = int (NumMyElements rodm) - int (NumMyElements rbm)"
    using rebalancedBondMapArrays_kept(2) [OF arr] n1 by simp
  from rnb arr g e mem pos n1 n2 show ?thesis by blast
qed

text \<open>
  Three points in the old decomposition, 1 with two bonds, 2 with one and 3 with none;
  the rebalanced owned map lists them as 3, 1, 2. Point 3 gets no entry.
\<close>

theorem createRebalancedBondMap_keeps_positive_counts_witness:
  "createRebalancedBondMap (\<lambda>g. None) (BlockMap_constant [1, 2, 3] 1)
       (BlockMap_variable [1, 2] [2, 1]) (BlockMap_constant [3, 1, 2] 1)
       (Epetra_Import_new (BlockMap_constant [3, 1, 2] 1) (BlockMap_constant [1, 2, 3] 1))
     = Inr (BlockMap_variable [1, 2] [2, 1])
   \<and> (\<exists>rnb numMyElements mge esl numPointsWithZeroNeighbors.
         rebalancedNumberOfBonds (\<lambda>g. None) (BlockMap_constant [1, 2, 3] 1)
             (BlockMap_variable [1, 2] [2, 1]) (BlockMap_constant [3, 1, 2] 1)
             (Epetra_Import_new (BlockMap_constant [3, 1, 2] 1) (BlockMap_constant [1, 2, 3] 1))
           = Inr rnb \<and>
         rebalancedBondMapArrays (BlockMap_constant [3, 1, 2] 1) rnb
           = Inr (numMyElements, mge, esl, numPointsWithZeroNeighbors) \<and>
         MyGlobalElements (BlockMap_variable [1, 2] [2, 1])
           = map fst (filter (\<lambda>(g, c). 0 < c)
                 (zip (MyGlobalElements (BlockMap_constant [3, 1, 2] 1)) rnb)) \<and>
         ElementSizeList (BlockMap_variable [1, 2] [2, 1])
           = map snd (filter (\<lambda>(g, c). 0 < c)
                 (zip (MyGlobalElements (BlockMap_constant [3, 1, 2] 1)) rnb)) \<and>
         (\<forall>g. g \<in> set (MyGlobalElements (BlockMap_variable [1, 2] [2, 1])) \<longleftrightarrow>
                (\<exists>c. (g, c) \<in> set (zip (MyGlobalElements (BlockMap_constant [3, 1, 2] 1)) rnb)
                     \<and> 0 < c)) \<and>
         (\<forall>sz \<in> set (ElementSizeList (BlockMap_variable [1, 2] [2, 1])). 0 < sz) \<and>
         numMyElements = int (NumMyElements (BlockMap_variable [1, 2] [2, 1])) \<and>
         numPointsWithZeroNeighbors
           = int (NumMyElements (BlockMap_constant [3, 1, 2] 1))
             - int (NumMyElements (BlockMap_variable [1, 2] [2, 1])))"
proof -
  have run: "createRebalancedBondMap (\<lambda>g. None) (BlockMap_constant [1, 2, 3] 1)
       (BlockMap_variable [1, 2] [2, 1]) (BlockMap_constant [3, 1, 2] 1)
       (Epetra_Import_new (BlockMap_constant [3, 1, 2] 1) (BlockMap_constant [1, 2, 3] 1))
     = Inr (BlockMap_variable [1, 2] [2, 1])"
    by code_simp
  from createRebalancedBondMap_keeps_positive_counts [OF run] run
  show ?thesis by blast
qed

section \<open>The number of bonds recorded in the old decomposition\<close>

text \<open>
  C3. The old decomposition owns points 10, 20 and 30; point 10 has no bonds, so the bond
  map holds 20 with two bonds and 30 with five. After the first two iterations of the
  loop of lines 451-456 the count recorded for point 20 is 5, the size of the bond-map
  element in slot 1, while the entry of point 20 itself, in slot 0, has size 2. The third
  iteration reads the size in slot 2, past the end of the bond map.
\<close>

theorem numberOfBonds_reads_size_at_owned_index:
  "numberOfBondsLoop (BlockMap_constant [10, 20, 30] 1) (BlockMap_variable [20, 30] [2, 5])
       [0, 1] [0, 0, 0] = Inr [0, 5, 0]
   \<and> LID (BlockMap_variable [20, 30] [2, 5]) 20 = 0
   \<and> ElementSize (BlockMap_variable [20, 30] [2, 5]) 0 = Inr 2
   \<and> numberOfBonds (BlockMap_constant [10, 20, 30] 1) (BlockMap_variable [20, 30] [2, 5])
       = Inl OutOfBounds"
  by code_simp

section \<open>A step off the cadence\<close>

lemma smod_eq_0_iff_dvd: "l \<noteq> 0 \<Longrightarrow> (k smod l = 0) = (l dvd (k::int))"
proof -
  assume "l \<noteq> 0"
  have "(k smod l = 0) = (k = 0 \<or> \<bar>k\<bar> mod \<bar>l\<bar> = 0)"
    by (auto simp: smod_int_alt_def sgn_if)
  also have "\<dots> = (\<bar>l\<bar> dvd \<bar>k\<bar>)"
    by (auto simp: dvd_eq_mod_eq_0)
  also have "\<dots> = (l dvd k)" by simp
  finally show ?thesis .
qed

text \<open>
  C5. With a cadence other than 0, \<^verbatim>\<open>rebalance\<close> called with a step number that the
  cadence does not divide returns at once: the result is the manager it was called on, with
  every map, importer, table and mothership vector as before.
\<close>

theorem rebalance_off_cadence_unchanged:
  assumes "contactRebalanceFrequency s \<noteq> 0"
      and "\<not> contactRebalanceFrequency s dvd step"
  shows "rebalance env s step = Inr s"
  using assms by (simp add: rebalance_def smod_eq_0_iff_dvd)

theorem rebalance_off_cadence_unchanged_witness:
  "contactRebalanceFrequency exampleManager \<noteq> 0
   \<and> \<not> contactRebalanceFrequency exampleManager dvd 3
   \<and> rebalance exampleEnvironment exampleManager 3 = Inr exampleManager"
proof -
  have f: "contactRebalanceFrequency exampleManager \<noteq> 0"
    by (simp add: exampleManager_def)
  have d: "\<not> contactRebalanceFrequency exampleManager dvd 3"
    by (simp add: exampleManager_def)
  from rebalance_off_cadence_unchanged [OF f d] f d show ?thesis by blast
qed

section \<open>The set of off-processor IDs\<close>

lemma set_set_insert: "set (set_insert x xs) = insert x (set xs)"
  by (auto simp: set_insert_def set_insort_key)

lemma sorted_distinct_set_insert:
  "sorted xs \<and> distinct xs \<Longrightarrow> sorted (set_insert x xs) \<and> distinct (set_insert x xs)"
  by (simp add: set_insert_def sorted_insort distinct_insort)

lemma fold_set_insert:
  "set (fold set_insert ys xs) = set ys \<union> set xs
   \<and> (sorted xs \<and> distinct xs \<longrightarrow>
        sorted (fold set_insert ys xs) \<and> distinct (fold set_insert ys xs))"
proof (induction ys arbitrary: xs)
  case Nil
  show ?case by simp
next
  case (Cons y ys)
  from Cons.IH [of "set_insert y xs"] sorted_distinct_set_insert [of xs y]
  show ?case by (auto simp: set_set_insert)
qed

lemma bondedOff_fold:
  "set (fold (\<lambda>globalID off. if \<not> MyGID rodm globalID then set_insert globalID off else off) ids acc)
     = {g \<in> set ids. \<not> MyGID rodm g} \<union> set acc
   \<and> (sorted acc \<and> distinct acc \<longrightarrow>
        sorted (fold (\<lambda>globalID off. if \<not> MyGID rodm globalID then set_insert globalID off else off) ids acc)
        \<and> distinct (fold (\<lambda>globalID off. if \<not> MyGID rodm globalID then set_insert globalID off else off) ids acc))"
proof (induction ids arbitrary: acc)
  case Nil
  show ?case by simp
next
  case (Cons g ids)
  show ?case
  proof (cases "MyGID rodm g")
    case True
    with Cons.IH [of acc] show ?thesis by auto
  next
    case False
    with Cons.IH [of "set_insert g acc"] sorted_distinct_set_insert [of acc g]
    show ?thesis by (auto simp: set_set_insert)
  qed
qed

lemma bondedOffProcessorIDs_facts:
  "set (bondedOffProcessorIDs rodm ids) = {g \<in> set ids. \<not> MyGID rodm g}"
  "sorted (bondedOffProcessorIDs rodm ids)"
  "distinct (bondedOffProcessorIDs rodm ids)"
  using bondedOff_fold [of rodm ids "[]"] by (simp_all add: bondedOffProcessorIDs_def)

text \<open>An ID is covered when the owned map holds it or the off-processor set does.\<close>

lemma retainLoop_off:
  assumes "retainLoop rodm bonded sn idx k (lst, off) = Inr (idx', lst', off')"
  shows "set off \<subseteq> set off'
       \<and> (\<forall>n \<in> set off'. n \<in> set off \<or> LID rodm n = -1)
       \<and> (\<forall>n \<in> set lst'. n \<in> set lst \<or> LID rodm n \<noteq> -1 \<or> n \<in> set off')"
  using assms
proof (induction k arbitrary: idx lst off)
  case 0
  then show ?case by auto
next
  case (Suc k)
  from Suc.prems obtain n where rd: "vread sn idx = Inr n"
    by (auto split: sum.splits)
  show ?case
  proof (cases "n \<in> set bonded")
    case True
    with Suc.prems rd have
      "retainLoop rodm bonded sn (idx + 1) k (lst, off) = Inr (idx', lst', off')" by simp
    from Suc.IH [OF this] show ?thesis .
  next
    case False
    let ?off1 = "if LID rodm n = -1 then set_insert n off else off"
    from False Suc.prems rd have
      "retainLoop rodm bonded sn (idx + 1) k (lst @ [n], ?off1) = Inr (idx', lst', off')" by simp
    from Suc.IH [OF this]
    have a: "set ?off1 \<subseteq> set off'"
      and b: "\<forall>m \<in> set off'. m \<in> set ?off1 \<or> LID rodm m = -1"
      and c: "\<forall>m \<in> set lst'. m \<in> set (lst @ [n]) \<or> LID rodm m \<noteq> -1 \<or> m \<in> set off'"
      by blast+
    have s1: "set off \<subseteq> set ?off1" by (auto simp: set_set_insert)
    have s2: "\<forall>m \<in> set ?off1. m \<in> set off \<or> LID rodm m = -1"
      by (auto simp: set_set_insert)
    have s3: "LID rodm n \<noteq> -1 \<or> n \<in> set ?off1" by (auto simp: set_set_insert)
    from a s1 have g1: "set off \<subseteq> set off'" by blast
    from b s2 have g2: "\<forall>m \<in> set off'. m \<in> set off \<or> LID rodm m = -1" by blast
    from c have c': "\<forall>m \<in> set lst'. m \<in> set lst \<or> m = n \<or> LID rodm m \<noteq> -1 \<or> m \<in> set off'"
      by auto
    from c' s3 a have g3: "\<forall>m \<in> set lst'. m \<in> set lst \<or> LID rodm m \<noteq> -1 \<or> m \<in> set off'"
      by blast
    from g1 g2 g3 show ?thesis by blast
  qed
qed

lemma contactSearchLoop_off:
  assumes "contactSearchLoop rodm rbm ids sn gids idx (cn, off) = Inr (cn', off')"
      and "\<forall>g l. map_of cn g = Some l \<longrightarrow> (\<forall>n \<in> set l. LID rodm n \<noteq> -1 \<or> n \<in> set off)"
  shows "set off \<subseteq> set off'
       \<and> (\<forall>n \<in> set off'. n \<in> set off \<or> LID rodm n = -1)
       \<and> (\<forall>g l. map_of cn' g = Some l \<longrightarrow> (\<forall>n \<in> set l. LID rodm n \<noteq> -1 \<or> n \<in> set off'))"
  using assms
proof (induction gids arbitrary: idx cn off)
  case Nil
  then show ?case by auto
next
  case (Cons g gids)
  let ?l0 = "case map_of cn g of None \<Rightarrow> [] | Some l \<Rightarrow> l"
  from Cons.prems(1) obtain bonded c idx1 lst1 off1 where
    ret: "retainLoop rodm bonded sn (idx + 1) (nat c) (?l0, off) = Inr (idx1, lst1, off1)" and
    run: "contactSearchLoop rodm rbm ids sn gids idx1 (AList.update g lst1 cn, off1) = Inr (cn', off')"
    by (auto simp: Let_def split: sum.splits)
  note r = retainLoop_off [OF ret]
  have l0: "\<forall>n \<in> set ?l0. LID rodm n \<noteq> -1 \<or> n \<in> set off"
  proof (cases "map_of cn g")
    case None
    then show ?thesis by simp
  next
    case (Some l)
    with Cons.prems(2) have "\<forall>n \<in> set l. LID rodm n \<noteq> -1 \<or> n \<in> set off" by blast
    with Some show ?thesis by simp
  qed
  have inv1: "\<forall>h l. map_of (AList.update g lst1 cn) h = Some l \<longrightarrow>
                (\<forall>n \<in> set l. LID rodm n \<noteq> -1 \<or> n \<in> set off1)"
  proof (intro allI impI ballI)
    fix h l n
    assume m: "map_of (AList.update g lst1 cn) h = Some l" and n: "n \<in> set l"
    show "LID rodm n \<noteq> -1 \<or> n \<in> set off1"
    proof (cases "h = g")
      case True
      with m have "l = lst1" by (simp add: update_conv')
      with n r l0 show ?thesis by blast
    next
      case False
      with m have "map_of cn h = Some l" by (simp add: update_conv')
      with Cons.prems(2) n have "LID rodm n \<noteq> -1 \<or> n \<in> set off" by blast
      with r show ?thesis by blast
    qed
  qed
  from Cons.IH [OF run inv1]
  have a: "set off1 \<subseteq> set off'"
    and b: "\<forall>n \<in> set off'. n \<in> set off1 \<or> LID rodm n = -1"
    and c: "\<forall>g l. map_of cn' g = Some l \<longrightarrow> (\<forall>n \<in> set l. LID rodm n \<noteq> -1 \<or> n \<in> set off')"
    by blast+
  from a r have g1: "set off \<subseteq> set off'" by blast
  from b r have g2: "\<forall>n \<in> set off'. n \<in> set off \<or> LID rodm n = -1" by blast
  from g1 g2 c show ?case by blast
qed

lemma contactSearch_off:
  assumes "contactSearch rodm rbm ids np sg sn ([], []) = Inr (cn, off)"
  shows "\<forall>n \<in> set off. LID rodm n = -1"
    and "\<forall>g l. map_of cn g = Some l \<longrightarrow> (\<forall>n \<in> set l. LID rodm n \<noteq> -1 \<or> n \<in> set off)"
proof -
  from assms have run:
    "contactSearchLoop rodm rbm ids sn (take np sg) 0 ([], []) = Inr (cn, off)"
    by (auto simp: contactSearch_def split: if_splits)
  have "\<forall>g l. map_of ([]::(int \<times> int list) list) g = Some l \<longrightarrow>
          (\<forall>n \<in> set l. LID rodm n \<noteq> -1 \<or> n \<in> set ([]::int list))" by simp
  from contactSearchLoop_off [OF run this]
  show "\<forall>n \<in> set off. LID rodm n = -1"
    and "\<forall>g l. map_of cn g = Some l \<longrightarrow> (\<forall>n \<in> set l. LID rodm n \<noteq> -1 \<or> n \<in> set off)"
    by auto
qed

section \<open>The phases of a rebalance cycle\<close>

lemma rebalance_cycle_Inr:
  assumes "rebalance env s step = Inr s'"
      and "contactRebalanceFrequency s \<noteq> 0"
      and "contactRebalanceFrequency s dvd step"
  obtains T s2 where "rebalanceTopology env s = Inr T"
    and "rebalanceNeighborhoodData s (rebalancedOneDimensionalMap T)
           (rebalancedOneDimensionalOverlapMap T) (rebalancedBondMap T)
           (rebalancedNeighborGlobalIDs T) (contactNeighborGlobalIDs T) = Inr s2"
    and "s' = rebalanceMothership env T s2"
proof -
  from assms have "rebalanceCycle env s = Inr s'"
    by (simp add: rebalance_def smod_eq_0_iff_dvd)
  then show ?thesis
    using that by (auto simp: rebalanceCycle_def split: sum.splits)
qed

lemma rebalanceTopology_Inr:
  assumes "rebalanceTopology env s = Inr T"
  obtains offc where
    "contactSearch (rebalancedOneDimensionalMap T) (rebalancedBondMap T)
       (rebalancedNeighborGlobalIDs T) (numPoints (loadBalancedDecomp env))
       (searchOwnedGIDs env) (searchNeighborhood env) ([], [])
       = Inr (contactNeighborGlobalIDs T, offc)"
    and "offProcessorIDs T
       = fold set_insert offc (bondedOffProcessorIDs (rebalancedOneDimensionalMap T)
                                 (rebalancedNeighborGlobalIDs T))"
    and "rebalancedOneDimensionalOverlapMap T
       = BlockMap_constant (MyGlobalElements (rebalancedOneDimensionalMap T) @ offProcessorIDs T) 1"
    and "rebalancedOneDimensionalMap T = getOwnedMap (loadBalancedDecomp env) 1"
    and "rebalancedThreeDimensionalMap T = getOwnedMap (loadBalancedDecomp env) 3"
    and "oneDimensionalMapImporter T
       = Epetra_Import_new (getOwnedMap (loadBalancedDecomp env) 1) (oneDimensionalContactMap s)"
    and "threeDimensionalMapImporter T
       = Epetra_Import_new (getOwnedMap (loadBalancedDecomp env) 3) (threeDimensionalContactMap s)"
  using assms that
  unfolding rebalanceTopology_def Let_def
  by (auto split: sum.splits)

lemma rebalanceNeighborhoodData_Inr:
  assumes "rebalanceNeighborhoodData s rodm ov rbm ids cn = Inr s2"
  obtains nd cnd where "createRebalancedNeighborhoodData rodm ov rbm ids = Inr nd"
    and "createRebalancedContactNeighborhoodData cn rodm ov = Inr cnd"
    and "s2 = s\<lparr>neighborhoodData := nd, contactNeighborhoodData := cnd\<rparr>"
  using assms that
  unfolding rebalanceNeighborhoodData_def Let_def
  by (auto split: sum.splits)

lemma rebalanceMothership_maps:
  "oneDimensionalContactMap (rebalanceMothership env T s) = rebalancedOneDimensionalMap T"
  "oneDimensionalOverlapContactMap (rebalanceMothership env T s)
     = rebalancedOneDimensionalOverlapMap T"
  "threeDimensionalContactMap (rebalanceMothership env T s) = rebalancedThreeDimensionalMap T"
  "bondContactMap (rebalanceMothership env T s) = rebalancedBondMap T"
  "neighborhoodData (rebalanceMothership env T s) = neighborhoodData s"
  "contactNeighborhoodData (rebalanceMothership env T s) = contactNeighborhoodData s"
  by (simp_all add: rebalanceMothership_def Let_def)

lemma topology_ghosts:
  assumes "rebalanceTopology env s = Inr T"
  shows "MyGlobalElements (rebalancedOneDimensionalOverlapMap T)
           = MyGlobalElements (rebalancedOneDimensionalMap T) @ offProcessorIDs T"
    and "\<forall>g \<in> set (offProcessorIDs T). LID (rebalancedOneDimensionalMap T) g = -1"
    and "sorted (offProcessorIDs T)" and "distinct (offProcessorIDs T)"
    and "\<forall>g \<in> set (rebalancedNeighborGlobalIDs T).
           LID (rebalancedOneDimensionalOverlapMap T) g \<noteq> -1"
    and "\<forall>g l. map_of (contactNeighborGlobalIDs T) g = Some l \<longrightarrow>
           (\<forall>n \<in> set l. LID (rebalancedOneDimensionalOverlapMap T) n \<noteq> -1)"
proof -
  let ?rodm = "rebalancedOneDimensionalMap T"
  let ?ids = "rebalancedNeighborGlobalIDs T"
  from assms obtain offc where
    cs: "contactSearch ?rodm (rebalancedBondMap T) ?ids (numPoints (loadBalancedDecomp env))
           (searchOwnedGIDs env) (searchNeighborhood env) ([], [])
           = Inr (contactNeighborGlobalIDs T, offc)" and
    off: "offProcessorIDs T = fold set_insert offc (bondedOffProcessorIDs ?rodm ?ids)" and
    ov: "rebalancedOneDimensionalOverlapMap T
           = BlockMap_constant (MyGlobalElements ?rodm @ offProcessorIDs T) 1"
    by (rule rebalanceTopology_Inr)
  note b = bondedOffProcessorIDs_facts [of ?rodm ?ids]
  note f = fold_set_insert [of offc "bondedOffProcessorIDs ?rodm ?ids"]
  have setoff: "set (offProcessorIDs T) = set offc \<union> {g \<in> set ?ids. \<not> MyGID ?rodm g}"
    using f b(1) by (simp add: off)
  show gm: "MyGlobalElements (rebalancedOneDimensionalOverlapMap T)
           = MyGlobalElements ?rodm @ offProcessorIDs T"
    by (simp add: ov BlockMap_constant_def)
  show "\<forall>g \<in> set (offProcessorIDs T). LID ?rodm g = -1"
    using contactSearch_off(1) [OF cs] by (auto simp: setoff MyGID_def)
  show "sorted (offProcessorIDs T)" using f b by (simp add: off)
  show "distinct (offProcessorIDs T)" using f b by (simp add: off)
  show "\<forall>g \<in> set ?ids. LID (rebalancedOneDimensionalOverlapMap T) g \<noteq> -1"
    unfolding LID_absent gm using setoff by (auto simp: MyGID_def LID_absent)
  show "\<forall>g l. map_of (contactNeighborGlobalIDs T) g = Some l \<longrightarrow>
           (\<forall>n \<in> set l. LID (rebalancedOneDimensionalOverlapMap T) n \<noteq> -1)"
  proof (intro allI impI ballI)
    fix g l n
    assume "map_of (contactNeighborGlobalIDs T) g = Some l" and "n \<in> set l"
    with contactSearch_off(2) [OF cs] have "LID ?rodm n \<noteq> -1 \<or> n \<in> set offc" by blast
    then show "LID (rebalancedOneDimensionalOverlapMap T) n \<noteq> -1"
      unfolding LID_absent gm using setoff by auto
  qed
qed

section \<open>Owned and ghost entries of the overlap map\<close>

text \<open>
  C6. After a rebalance cycle the rebalanced overlap map is the rebalanced owned map's ID
  list followed by the off-processor IDs, in ascending order and each once; none of them
  is an ID that the owned map holds, so no ID is both an owned and a ghost entry.
\<close>

theorem rebalance_owned_and_ghosts_disjoint:
  assumes "rebalance env s step = Inr s'"
      and "contactRebalanceFrequency s \<noteq> 0"
      and "contactRebalanceFrequency s dvd step"
  shows "\<exists>ghosts.
           MyGlobalElements (oneDimensionalOverlapContactMap s')
             = MyGlobalElements (oneDimensionalContactMap s') @ ghosts \<and>
           set (MyGlobalElements (oneDimensionalContactMap s')) \<inter> set ghosts = {} \<and>
           (\<forall>g \<in> set ghosts. \<not> MyGID (oneDimensionalContactMap s') g) \<and>
           sorted ghosts \<and> distinct ghosts"
proof -
  from assms obtain T s2 where T: "rebalanceTopology env s = Inr T"
    and s': "s' = rebalanceMothership env T s2"
    by (rule rebalance_cycle_Inr)
  note g = topology_ghosts [OF T]
  have own: "oneDimensionalContactMap s' = rebalancedOneDimensionalMap T"
    and ovl: "oneDimensionalOverlapContactMap s' = rebalancedOneDimensionalOverlapMap T"
    by (simp_all add: s' rebalanceMothership_maps)
  have dis: "set (MyGlobalElements (rebalancedOneDimensionalMap T)) \<inter> set (offProcessorIDs T) = {}"
    using g(2) by (auto simp: LID_absent)
  have notmine: "\<forall>g \<in> set (offProcessorIDs T). \<not> MyGID (rebalancedOneDimensionalMap T) g"
    using g(2) by (simp add: MyGID_def)
  from g(1) dis notmine g(3) g(4) show ?thesis
    unfolding own ovl by blast
qed

theorem rebalance_owned_and_ghosts_disjoint_witness:
  "rebalance exampleEnvironment exampleManager 4 = Inr exampleRebalanced
   \<and> contactRebalanceFrequency exampleManager \<noteq> 0
   \<and> contactRebalanceFrequency exampleManager dvd 4
   \<and> (\<exists>ghosts.
         MyGlobalElements (oneDimensionalOverlapContactMap exampleRebalanced)
           = MyGlobalElements (oneDimensionalContactMap exampleRebalanced) @ ghosts \<and>
         set (MyGlobalElements (oneDimensionalContactMap exampleRebalanced)) \<inter> set ghosts = {} \<and>
         (\<forall>g \<in> set ghosts. \<not> MyGID (oneDimensionalContactMap exampleRebalanced) g) \<and>
         sorted ghosts \<and> distinct ghosts)"
proof -
  have run: "rebalance exampleEnvironment exampleManager 4 = Inr exampleRebalanced"
    by code_simp
  have f: "contactRebalanceFrequency exampleManager \<noteq> 0"
    by (simp add: exampleManager_def)
  have d: "contactRebalanceFrequency exampleManager dvd 4"
    by (simp add: exampleManager_def)
  from rebalance_owned_and_ghosts_disjoint [OF run f d] run f d show ?thesis by blast
qed

section \<open>Segments of a neighborhood list\<close>

lemma segmentAt_append:
  assumes "p < length nl" and "p + nat (nl ! p) < length nl"
  shows "segmentAt (nl @ tail) p = segmentAt nl p"
  using assms by (simp add: segmentAt_def nth_append)

lemma segmentAt_new:
  assumes "length ls = nat c"
  shows "segmentAt (nl @ c # ls) (length nl) = ls"
  using assms by (simp add: segmentAt_def)

lemma bondNeighborLoop_resolved:
  assumes "bondNeighborLoop ov ids j k nl = Inr nl'"
  shows "\<exists>bs. length bs = k \<and> bondedLoop ids j k acc = Inr (acc @ bs)
            \<and> nl' = nl @ map (LID ov) bs \<and> (\<forall>n \<in> set bs. LID ov n \<noteq> -1)"
  using assms
proof (induction k arbitrary: j nl acc)
  case 0
  then show ?case by simp
next
  case (Suc k)
  from Suc.prems obtain n where rd: "vread ids j = Inr n" and res: "LID ov n \<noteq> -1"
    and run: "bondNeighborLoop ov ids (j + 1) k (nl @ [LID ov n]) = Inr nl'"
    by (auto simp: Let_def split: sum.splits if_splits)
  from Suc.IH [OF run, of "acc @ [n]"] obtain bs where
    bs: "length bs = k" "bondedLoop ids (j + 1) k (acc @ [n]) = Inr ((acc @ [n]) @ bs)"
        "nl' = (nl @ [LID ov n]) @ map (LID ov) bs" "\<forall>m \<in> set bs. LID ov m \<noteq> -1"
    by blast
  have "length (n # bs) = Suc k" using bs(1) by simp
  moreover have "bondedLoop ids j (Suc k) acc = Inr (acc @ n # bs)"
    using bs(2) rd by simp
  moreover have "nl' = nl @ map (LID ov) (n # bs)" using bs(3) by simp
  moreover have "\<forall>m \<in> set (n # bs). LID ov m \<noteq> -1" using bs(4) res by simp
  ultimately show ?case by blast
qed

lemma bondTableLoop_segments:
  assumes "bondTableLoop ov rbm ids gids (nl, ptr) = Inr (nl', ptr')"
  shows "\<exists>tail ptail. nl' = nl @ tail \<and> ptr' = ptr @ ptail \<and> length ptail = length gids
           \<and> (\<forall>i < length gids.
                 0 \<le> ptail ! i \<and> nat (ptail ! i) < length nl'
                 \<and> nat (ptail ! i) + nat (nl' ! nat (ptail ! i)) < length nl'
                 \<and> (\<exists>bs. bondedNeighbors rbm ids (gids ! i) = Inr bs
                         \<and> segmentAt nl' (nat (ptail ! i)) = map (LID ov) bs
                         \<and> (\<forall>n \<in> set bs. LID ov n \<noteq> -1)))"
  using assms
proof (induction gids arbitrary: nl ptr)
  case Nil
  then show ?case by simp
next
  case (Cons g gids)
  let ?p = "length nl"
  have "\<exists>c bs. length bs = nat c \<and> bondedNeighbors rbm ids g = Inr bs
          \<and> (\<forall>n \<in> set bs. LID ov n \<noteq> -1)
          \<and> bondTableLoop ov rbm ids gids (nl @ c # map (LID ov) bs, ptr @ [int ?p])
              = Inr (nl', ptr')"
  proof (cases "LID rbm g = -1")
    case True
    with Cons.prems have
      "bondTableLoop ov rbm ids gids (nl @ 0 # map (LID ov) [], ptr @ [int ?p]) = Inr (nl', ptr')"
      by (simp add: Let_def)
    moreover have "bondedNeighbors rbm ids g = Inr []"
      using True by (simp add: bondedNeighbors_def)
    ultimately show ?thesis by (intro exI [of _ 0] exI [of _ "[]"]) simp
  next
    case False
    with Cons.prems obtain c off nl1 where
      es: "ElementSize rbm (LID rbm g) = Inr c" and
      fp: "FirstPointInElement rbm (LID rbm g) = Inr off" and
      inner: "bondNeighborLoop ov ids off (nat c) (nl @ [c]) = Inr nl1" and
      run: "bondTableLoop ov rbm ids gids (nl1, ptr @ [int ?p]) = Inr (nl', ptr')"
      by (auto simp: Let_def split: sum.splits)
    from bondNeighborLoop_resolved [OF inner, of "[]"] obtain bs where
      bs: "length bs = nat c" "bondedLoop ids off (nat c) [] = Inr bs"
          "nl1 = (nl @ [c]) @ map (LID ov) bs" "\<forall>n \<in> set bs. LID ov n \<noteq> -1"
      by auto
    have "bondedNeighbors rbm ids g = Inr bs"
      using False es fp bs(2) by (simp add: bondedNeighbors_def Let_def)
    moreover have "nl1 = nl @ c # map (LID ov) bs" using bs(3) by simp
    ultimately show ?thesis using bs(1) bs(4) run by blast
  qed
  then obtain c bs where
    len: "length bs = nat c" and bn: "bondedNeighbors rbm ids g = Inr bs" and
    res: "\<forall>n \<in> set bs. LID ov n \<noteq> -1" and
    run: "bondTableLoop ov rbm ids gids (nl @ c # map (LID ov) bs, ptr @ [int ?p]) = Inr (nl', ptr')"
    by blast
  let ?nl1 = "nl @ c # map (LID ov) bs"
  from Cons.IH [OF run] obtain tail ptail where
    t: "nl' = ?nl1 @ tail" and pt: "ptr' = (ptr @ [int ?p]) @ ptail" and
    lp: "length ptail = length gids" and
    rest: "\<forall>i < length gids.
                 0 \<le> ptail ! i \<and> nat (ptail ! i) < length nl'
                 \<and> nat (ptail ! i) + nat (nl' ! nat (ptail ! i)) < length nl'
                 \<and> (\<exists>bs. bondedNeighbors rbm ids (gids ! i) = Inr bs
                         \<and> segmentAt nl' (nat (ptail ! i)) = map (LID ov) bs
                         \<and> (\<forall>n \<in> set bs. LID ov n \<noteq> -1))"
    by blast
  have c_at: "?nl1 ! ?p = c" by simp
  have p1: "?p < length ?nl1" by simp
  have p2: "?p + nat (?nl1 ! ?p) < length ?nl1" unfolding c_at using len by simp
  have seg1: "segmentAt ?nl1 ?p = map (LID ov) bs"
    using segmentAt_new [of "map (LID ov) bs" c nl] len by simp
  have seg: "segmentAt nl' ?p = map (LID ov) bs"
    unfolding t using segmentAt_append [OF p1 p2] seg1 by simp
  have at': "nl' ! ?p = c" unfolding t using p1 c_at by (simp add: nth_append del: nth_append_length)
  have head: "0 \<le> int ?p \<and> nat (int ?p) < length nl'
                 \<and> nat (int ?p) + nat (nl' ! nat (int ?p)) < length nl'
                 \<and> (\<exists>bs. bondedNeighbors rbm ids g = Inr bs
                         \<and> segmentAt nl' (nat (int ?p)) = map (LID ov) bs
                         \<and> (\<forall>n \<in> set bs. LID ov n \<noteq> -1))"
    using bn res seg len at' by (auto simp: t)
  let ?ptail = "int ?p # ptail"
  have all: "\<forall>i < length (g # gids).
                 0 \<le> ?ptail ! i \<and> nat (?ptail ! i) < length nl'
                 \<and> nat (?ptail ! i) + nat (nl' ! nat (?ptail ! i)) < length nl'
                 \<and> (\<exists>bs. bondedNeighbors rbm ids ((g # gids) ! i) = Inr bs
                         \<and> segmentAt nl' (nat (?ptail ! i)) = map (LID ov) bs
                         \<and> (\<forall>n \<in> set bs. LID ov n \<noteq> -1))"
  proof (intro allI impI)
    fix i assume i: "i < length (g # gids)"
    show "0 \<le> ?ptail ! i \<and> nat (?ptail ! i) < length nl'
                 \<and> nat (?ptail ! i) + nat (nl' ! nat (?ptail ! i)) < length nl'
                 \<and> (\<exists>bs. bondedNeighbors rbm ids ((g # gids) ! i) = Inr bs
                         \<and> segmentAt nl' (nat (?ptail ! i)) = map (LID ov) bs
                         \<and> (\<forall>n \<in> set bs. LID ov n \<noteq> -1))"
    proof (cases i)
      case 0
      with head show ?thesis by simp
    next
      case (Suc i')
      with i have "i' < length gids" by simp
      with rest Suc show ?thesis by simp
    qed
  qed
  have "nl' = nl @ (c # map (LID ov) bs) @ tail" using t by simp
  moreover have "ptr' = ptr @ ?ptail" using pt by simp
  moreover have "length ?ptail = length (g # gids)" using lp by simp
  ultimately show ?case using all by blast
qed

lemma contactTableLoop_segments:
  assumes "contactTableLoop ov cn gids (nl, ptr) = Inr (nl', ptr')"
  shows "\<exists>tail ptail. nl' = nl @ tail \<and> ptr' = ptr @ ptail \<and> length ptail = length gids
           \<and> (\<forall>i < length gids.
                 0 \<le> ptail ! i \<and> nat (ptail ! i) < length nl'
                 \<and> nat (ptail ! i) + nat (nl' ! nat (ptail ! i)) < length nl'
                 \<and> (\<exists>l. map_of cn (gids ! i) = Some l
                         \<and> segmentAt nl' (nat (ptail ! i)) = map (LID ov) l))"
  using assms
proof (induction gids arbitrary: nl ptr)
  case Nil
  then show ?case by simp
next
  case (Cons g gids)
  let ?p = "length nl"
  from Cons.prems obtain l where
    ml: "map_of cn g = Some l" and
    run: "contactTableLoop ov cn gids (nl @ int (length l) # map (LID ov) l, ptr @ [int ?p])
            = Inr (nl', ptr')"
    by (auto simp: Let_def split: option.splits)
  let ?nl1 = "nl @ int (length l) # map (LID ov) l"
  from Cons.IH [OF run] obtain tail ptail where
    t: "nl' = ?nl1 @ tail" and pt: "ptr' = (ptr @ [int ?p]) @ ptail" and
    lp: "length ptail = length gids" and
    rest: "\<forall>i < length gids.
                 0 \<le> ptail ! i \<and> nat (ptail ! i) < length nl'
                 \<and> nat (ptail ! i) + nat (nl' ! nat (ptail ! i)) < length nl'
                 \<and> (\<exists>l. map_of cn (gids ! i) = Some l
                         \<and> segmentAt nl' (nat (ptail ! i)) = map (LID ov) l)"
    by blast
  have c_at: "?nl1 ! ?p = int (length l)" by simp
  have p1: "?p < length ?nl1" by simp
  have p2: "?p + nat (?nl1 ! ?p) < length ?nl1" unfolding c_at by simp
  have seg1: "segmentAt ?nl1 ?p = map (LID ov) l"
    using segmentAt_new [of "map (LID ov) l" "int (length l)" nl] by simp
  have seg: "segmentAt nl' ?p = map (LID ov) l"
    unfolding t using segmentAt_append [OF p1 p2] seg1 by simp
  have at': "nl' ! ?p = int (length l)"
    unfolding t using p1 c_at by (simp add: nth_append del: nth_append_length)
  have head: "0 \<le> int ?p \<and> nat (int ?p) < length nl'
                 \<and> nat (int ?p) + nat (nl' ! nat (int ?p)) < length nl'
                 \<and> (\<exists>l. map_of cn g = Some l
                         \<and> segmentAt nl' (nat (int ?p)) = map (LID ov) l)"
    using ml seg at' by (auto simp: t)
  let ?ptail = "int ?p # ptail"
  have all: "\<forall>i < length (g # gids).
                 0 \<le> ?ptail ! i \<and> nat (?ptail ! i) < length nl'
                 \<and> nat (?ptail ! i) + nat (nl' ! nat (?ptail ! i)) < length nl'
                 \<and> (\<exists>l. map_of cn ((g # gids) ! i) = Some l
                         \<and> segmentAt nl' (nat (?ptail ! i)) = map (LID ov) l)"
  proof (intro allI impI)
    fix i assume i: "i < length (g # gids)"
    show "0 \<le> ?ptail ! i \<and> nat (?ptail ! i) < length nl'
                 \<and> nat (?ptail ! i) + nat (nl' ! nat (?ptail ! i)) < length nl'
                 \<and> (\<exists>l. map_of cn ((g # gids) ! i) = Some l
                         \<and> segmentAt nl' (nat (?ptail ! i)) = map (LID ov) l)"
    proof (cases i)
      case 0
      with head show ?thesis by simp
    next
      case (Suc i')
      with i have "i' < length gids" by simp
      with rest Suc show ?thesis by simp
    qed
  qed
  have "nl' = nl @ (int (length l) # map (LID ov) l) @ tail" using t by simp
  moreover have "ptr' = ptr @ ?ptail" using pt by simp
  moreover have "length ?ptail = length (g # gids)" using lp by simp
  ultimately show ?case using all by blast
qed

lemma allocatedList_Inr:
  "allocatedList listSize written = Inr nlist \<Longrightarrow> \<exists>zeros. nlist = written @ zeros"
  by (auto simp: allocatedList_def split: if_splits)

lemma createRebalancedNeighborhoodData_neighbors:
  assumes "createRebalancedNeighborhoodData rodm ov rbm ids = Inr nd"
  shows "NumOwnedPoints nd = NumMyElements rodm"
    and "\<forall>i < NumMyElements rodm.
           \<exists>bs. bondedNeighbors rbm ids (MyGlobalElements rodm ! i) = Inr bs
              \<and> tableNeighbors nd i = map (LID ov) bs \<and> (\<forall>n \<in> set bs. LID ov n \<noteq> -1)"
proof -
  from assms obtain ownedIDs written ptr nlist where
    loop: "bondTableLoop ov rbm ids (MyGlobalElements rodm) ([], []) = Inr (written, ptr)" and
    al: "allocatedList (int (NumMyElements rodm) + NumMyPoints rbm) written = Inr nlist" and
    nd: "nd = \<lparr>NumOwnedPoints = NumMyElements rodm, OwnedIDs = ownedIDs,
               NeighborhoodPtr = ptr,
               NeighborhoodListSize = int (NumMyElements rodm) + NumMyPoints rbm,
               NeighborhoodList = nlist\<rparr>"
    by (auto simp: createRebalancedNeighborhoodData_def Let_def split: sum.splits)
  from allocatedList_Inr [OF al] obtain zeros where nl: "nlist = written @ zeros" by blast
  show "NumOwnedPoints nd = NumMyElements rodm" by (simp add: nd)
  from bondTableLoop_segments [OF loop]
  have seg: "\<forall>i < length (MyGlobalElements rodm).
                 nat (ptr ! i) < length written
                 \<and> nat (ptr ! i) + nat (written ! nat (ptr ! i)) < length written
                 \<and> (\<exists>bs. bondedNeighbors rbm ids (MyGlobalElements rodm ! i) = Inr bs
                         \<and> segmentAt written (nat (ptr ! i)) = map (LID ov) bs
                         \<and> (\<forall>n \<in> set bs. LID ov n \<noteq> -1))"
    by auto
  show "\<forall>i < NumMyElements rodm.
           \<exists>bs. bondedNeighbors rbm ids (MyGlobalElements rodm ! i) = Inr bs
              \<and> tableNeighbors nd i = map (LID ov) bs \<and> (\<forall>n \<in> set bs. LID ov n \<noteq> -1)"
  proof (intro allI impI)
    fix i assume "i < NumMyElements rodm"
    then have i: "i < length (MyGlobalElements rodm)" by (simp add: NumMyElements_def)
    with seg have a: "nat (ptr ! i) < length written"
      and b: "nat (ptr ! i) + nat (written ! nat (ptr ! i)) < length written" by blast+
    from seg i obtain bs where bs: "bondedNeighbors rbm ids (MyGlobalElements rodm ! i) = Inr bs"
      "segmentAt written (nat (ptr ! i)) = map (LID ov) bs" "\<forall>n \<in> set bs. LID ov n \<noteq> -1"
      by blast
    have "tableNeighbors nd i = segmentAt (written @ zeros) (nat (ptr ! i))"
      by (simp add: tableNeighbors_def nd nl)
    also have "\<dots> = map (LID ov) bs" using segmentAt_append [OF a b] bs(2) by simp
    finally show "\<exists>bs. bondedNeighbors rbm ids (MyGlobalElements rodm ! i) = Inr bs
              \<and> tableNeighbors nd i = map (LID ov) bs \<and> (\<forall>n \<in> set bs. LID ov n \<noteq> -1)"
      using bs(1) bs(3) by blast
  qed
qed

lemma createRebalancedContactNeighborhoodData_neighbors:
  assumes "createRebalancedContactNeighborhoodData cn rodm ov = Inr cnd"
  shows "NumOwnedPoints cnd = NumMyElements rodm"
    and "\<forall>i < NumMyElements rodm.
           \<exists>l. map_of cn (MyGlobalElements rodm ! i) = Some l
              \<and> tableNeighbors cnd i = map (LID ov) l"
proof -
  from assms obtain ownedIDs written ptr nlist where
    loop: "contactTableLoop ov cn (MyGlobalElements rodm) ([], []) = Inr (written, ptr)" and
    al: "allocatedList (contactNeighborhoodListSize cn) written = Inr nlist" and
    nd: "cnd = \<lparr>NumOwnedPoints = NumMyElements rodm, OwnedIDs = ownedIDs,
               NeighborhoodPtr = ptr,
               NeighborhoodListSize = contactNeighborhoodListSize cn,
               NeighborhoodList = nlist\<rparr>"
    by (auto simp: createRebalancedContactNeighborhoodData_def Let_def split: sum.splits)
  from allocatedList_Inr [OF al] obtain zeros where nl: "nlist = written @ zeros" by blast
  show "NumOwnedPoints cnd = NumMyElements rodm" by (simp add: nd)
  from contactTableLoop_segments [OF loop]
  have seg: "\<forall>i < length (MyGlobalElements rodm).
                 nat (ptr ! i) < length written
                 \<and> nat (ptr ! i) + nat (written ! nat (ptr ! i)) < length written
                 \<and> (\<exists>l. map_of cn (MyGlobalElements rodm ! i) = Some l
                         \<and> segmentAt written (nat (ptr ! i)) = map (LID ov) l)"
    by auto
  show "\<forall>i < NumMyElements rodm.
           \<exists>l. map_of cn (MyGlobalElements rodm ! i) = Some l
              \<and> tableNeighbors cnd i = map (LID ov) l"
  proof (intro allI impI)
    fix i assume "i < NumMyElements rodm"
    then have i: "i < length (MyGlobalElements rodm)" by (simp add: NumMyElements_def)
    with seg have a: "nat (ptr ! i) < length written"
      and b: "nat (ptr ! i) + nat (written ! nat (ptr ! i)) < length written" by blast+
    from seg i obtain l where l: "map_of cn (MyGlobalElements rodm ! i) = Some l"
      "segmentAt written (nat (ptr ! i)) = map (LID ov) l"
      by blast
    have "tableNeighbors cnd i = segmentAt (written @ zeros) (nat (ptr ! i))"
      by (simp add: tableNeighbors_def nd nl)
    also have "\<dots> = map (LID ov) l" using segmentAt_append [OF a b] l(2) by simp
    finally show "\<exists>l. map_of cn (MyGlobalElements rodm ! i) = Some l
              \<and> tableNeighbors cnd i = map (LID ov) l"
      using l(1) by blast
  qed
qed

lemma resolved_validSlot: "LID ov n \<noteq> -1 \<Longrightarrow> validSlot ov (LID ov n) \<and> GID ov (LID ov n) = n"
  using LID_present [of n ov] by (simp add: LID_absent validSlot_def)

section \<open>Every table entry is a slot of the overlap map\<close>

lemma unresolved_neighbor_no_table:
  assumes "g \<in> set (MyGlobalElements rodm)" and "bondedNeighbors rbm ids g = Inr bs"
      and "n \<in> set bs" and "LID ov n = -1"
  shows "\<exists>e. createRebalancedNeighborhoodData rodm ov rbm ids = Inl e
            \<and> rebalanceNeighborhoodData s rodm ov rbm ids cn = Inl (e, s)"
proof (cases "createRebalancedNeighborhoodData rodm ov rbm ids")
  case (Inl e)
  then show ?thesis by (simp add: rebalanceNeighborhoodData_def)
next
  case (Inr nd)
  from assms(1) obtain i where i: "i < length (MyGlobalElements rodm)"
    and gi: "MyGlobalElements rodm ! i = g"
    by (auto simp: in_set_conv_nth)
  from createRebalancedNeighborhoodData_neighbors(2) [OF Inr] i gi
  obtain bs' where "bondedNeighbors rbm ids g = Inr bs'" "\<forall>m \<in> set bs'. LID ov m \<noteq> -1"
    by (auto simp: NumMyElements_def)
  with assms(2,3,4) show ?thesis by auto
qed

lemma rebalance_tables_valid:
  assumes "rebalance env s step = Inr s'"
      and "contactRebalanceFrequency s \<noteq> 0"
      and "contactRebalanceFrequency s dvd step"
  shows "NumOwnedPoints (neighborhoodData s') = NumMyElements (oneDimensionalContactMap s')"
    and "NumOwnedPoints (contactNeighborhoodData s') = NumMyElements (oneDimensionalContactMap s')"
    and "\<forall>iLID < NumMyElements (oneDimensionalContactMap s').
           (\<forall>l \<in> set (tableNeighbors (neighborhoodData s') iLID).
              validSlot (oneDimensionalOverlapContactMap s') l) \<and>
           (\<forall>l \<in> set (tableNeighbors (contactNeighborhoodData s') iLID).
              validSlot (oneDimensionalOverlapContactMap s') l)"
proof -
  from assms obtain T s2 where T: "rebalanceTopology env s = Inr T"
    and tables: "rebalanceNeighborhoodData s (rebalancedOneDimensionalMap T)
           (rebalancedOneDimensionalOverlapMap T) (rebalancedBondMap T)
           (rebalancedNeighborGlobalIDs T) (contactNeighborGlobalIDs T) = Inr s2"
    and s': "s' = rebalanceMothership env T s2"
    by (rule rebalance_cycle_Inr)
  let ?rodm = "rebalancedOneDimensionalMap T"
  let ?ov = "rebalancedOneDimensionalOverlapMap T"
  from tables obtain nd cnd where
    nd: "createRebalancedNeighborhoodData ?rodm ?ov (rebalancedBondMap T)
           (rebalancedNeighborGlobalIDs T) = Inr nd" and
    cnd: "createRebalancedContactNeighborhoodData (contactNeighborGlobalIDs T) ?rodm ?ov = Inr cnd" and
    s2: "s2 = s\<lparr>neighborhoodData := nd, contactNeighborhoodData := cnd\<rparr>"
    by (rule rebalanceNeighborhoodData_Inr)
  have f: "oneDimensionalContactMap s' = ?rodm" "oneDimensionalOverlapContactMap s' = ?ov"
    "neighborhoodData s' = nd" "contactNeighborhoodData s' = cnd"
    by (simp_all add: s' s2 rebalanceMothership_maps)
  note b = createRebalancedNeighborhoodData_neighbors [OF nd]
  note c = createRebalancedContactNeighborhoodData_neighbors [OF cnd]
  note g = topology_ghosts(6) [OF T]
  show "NumOwnedPoints (neighborhoodData s') = NumMyElements (oneDimensionalContactMap s')"
    using b(1) by (simp add: f)
  show "NumOwnedPoints (contactNeighborhoodData s') = NumMyElements (oneDimensionalContactMap s')"
    using c(1) by (simp add: f)
  show "\<forall>iLID < NumMyElements (oneDimensionalContactMap s').
           (\<forall>l \<in> set (tableNeighbors (neighborhoodData s') iLID).
              validSlot (oneDimensionalOverlapContactMap s') l) \<and>
           (\<forall>l \<in> set (tableNeighbors (contactNeighborhoodData s') iLID).
              validSlot (oneDimensionalOverlapContactMap s') l)"
    unfolding f
  proof (intro allI impI conjI ballI)
    fix i l assume i: "i < NumMyElements ?rodm" and l: "l \<in> set (tableNeighbors nd i)"
    from b(2) i obtain bs where "tableNeighbors nd i = map (LID ?ov) bs"
      "\<forall>n \<in> set bs. LID ?ov n \<noteq> -1" by blast
    with l obtain n where "l = LID ?ov n" "LID ?ov n \<noteq> -1" by auto
    then show "validSlot ?ov l" using resolved_validSlot [of ?ov n] by simp
  next
    fix i l assume i: "i < NumMyElements ?rodm" and l: "l \<in> set (tableNeighbors cnd i)"
    from c(2) i obtain ns where ns: "map_of (contactNeighborGlobalIDs T) (MyGlobalElements ?rodm ! i) = Some ns"
      "tableNeighbors cnd i = map (LID ?ov) ns" by blast
    with l obtain n where n: "n \<in> set ns" "l = LID ?ov n" by auto
    from g ns(1) n(1) have "LID ?ov n \<noteq> -1" by blast
    then show "validSlot ?ov l" using resolved_validSlot [of ?ov n] n(2) by simp
  qed
qed

text \<open>
  C2. After a rebalance cycle each of the two tables has one entry per owned point, and
  every neighbor slot that either table holds for an owned point is a slot of the
  rebalanced overlap map. While the bond table is built against any overlap map, a
  neighbor ID that the map does not hold is a \<^verbatim>\<open>RangeError\<close> in the loop of lines
  605-610, \<^verbatim>\<open>createRebalancedNeighborhoodData\<close> returns no table, and the manager is as
  it was before lines 352-361.
\<close>

theorem rebalance_tables_resolve_in_overlap_map:
  "(rebalance env s step = Inr s' \<and> contactRebalanceFrequency s \<noteq> 0
      \<and> contactRebalanceFrequency s dvd step \<longrightarrow>
      NumOwnedPoints (neighborhoodData s') = NumMyElements (oneDimensionalContactMap s') \<and>
      NumOwnedPoints (contactNeighborhoodData s') = NumMyElements (oneDimensionalContactMap s') \<and>
      (\<forall>iLID < NumMyElements (oneDimensionalContactMap s').
         (\<forall>l \<in> set (tableNeighbors (neighborhoodData s') iLID).
            validSlot (oneDimensionalOverlapContactMap s') l) \<and>
         (\<forall>l \<in> set (tableNeighbors (contactNeighborhoodData s') iLID).
            validSlot (oneDimensionalOverlapContactMap s') l)))
   \<and> (vread ids j = Inr n \<and> LID ov n = -1 \<longrightarrow>
        bondNeighborLoop ov ids j (Suc k) nl
          = Inl (RangeError ''Invalid index into rebalancedOneDimensionalOverlapMap''))
   \<and> (g \<in> set (MyGlobalElements rodm) \<and> bondedNeighbors rbm ids g = Inr bs
        \<and> n \<in> set bs \<and> LID ov n = -1 \<longrightarrow>
        (\<exists>e. createRebalancedNeighborhoodData rodm ov rbm ids = Inl e
            \<and> rebalanceNeighborhoodData sb rodm ov rbm ids cn = Inl (e, sb)))"
proof (intro conjI impI)
  assume a: "rebalance env s step = Inr s' \<and> contactRebalanceFrequency s \<noteq> 0
      \<and> contactRebalanceFrequency s dvd step"
  then have r: "rebalance env s step = Inr s'" and f: "contactRebalanceFrequency s \<noteq> 0"
    and d: "contactRebalanceFrequency s dvd step" by simp_all
  show "NumOwnedPoints (neighborhoodData s') = NumMyElements (oneDimensionalContactMap s')"
    by (rule rebalance_tables_valid(1) [OF r f d])
  show "NumOwnedPoints (contactNeighborhoodData s') = NumMyElements (oneDimensionalContactMap s')"
    by (rule rebalance_tables_valid(2) [OF r f d])
  show "\<forall>iLID < NumMyElements (oneDimensionalContactMap s').
         (\<forall>l \<in> set (tableNeighbors (neighborhoodData s') iLID).
            validSlot (oneDimensionalOverlapContactMap s') l) \<and>
         (\<forall>l \<in> set (tableNeighbors (contactNeighborhoodData s') iLID).
            validSlot (oneDimensionalOverlapContactMap s') l)"
    by (rule rebalance_tables_valid(3) [OF r f d])
next
  assume "vread ids j = Inr n \<and> LID ov n = -1"
  then show "bondNeighborLoop ov ids j (Suc k) nl
          = Inl (RangeError ''Invalid index into rebalancedOneDimensionalOverlapMap'')"
    by simp
next
  assume "g \<in> set (MyGlobalElements rodm) \<and> bondedNeighbors rbm ids g = Inr bs
        \<and> n \<in> set bs \<and> LID ov n = -1"
  then show "\<exists>e. createRebalancedNeighborhoodData rodm ov rbm ids = Inl e
            \<and> rebalanceNeighborhoodData sb rodm ov rbm ids cn = Inl (e, sb)"
    using unresolved_neighbor_no_table by blast
qed

text \<open>
  The rebalance of the small decomposition, and a bond table built for point 1, bonded to
  point 2, against an overlap map that holds point 1 only.
\<close>

theorem rebalance_tables_resolve_in_overlap_map_witness:
  "(rebalance exampleEnvironment exampleManager 4 = Inr exampleRebalanced
      \<and> contactRebalanceFrequency exampleManager \<noteq> 0
      \<and> contactRebalanceFrequency exampleManager dvd 4)
   \<and> tableNeighbors (neighborhoodData exampleRebalanced) 0 = [1, 2]
   \<and> tableNeighbors (contactNeighborhoodData exampleRebalanced) 0 = [3]
   \<and> validSlot (oneDimensionalOverlapContactMap exampleRebalanced) 1
   \<and> validSlot (oneDimensionalOverlapContactMap exampleRebalanced) 2
   \<and> validSlot (oneDimensionalOverlapContactMap exampleRebalanced) 3
   \<and> (vread [2::int] 0 = Inr 2 \<and> LID (BlockMap_constant [1] 1) 2 = -1)
   \<and> bondNeighborLoop (BlockMap_constant [1] 1) [2] 0 (Suc 0) [1]
        = Inl (RangeError ''Invalid index into rebalancedOneDimensionalOverlapMap'')
   \<and> (1 \<in> set (MyGlobalElements (BlockMap_constant [1] 1))
        \<and> bondedNeighbors (BlockMap_variable [1] [1]) [2] 1 = Inr [2] \<and> 2 \<in> set [2::int])
   \<and> (\<exists>e. createRebalancedNeighborhoodData (BlockMap_constant [1] 1) (BlockMap_constant [1] 1)
              (BlockMap_variable [1] [1]) [2] = Inl e
          \<and> rebalanceNeighborhoodData exampleManager (BlockMap_constant [1] 1)
              (BlockMap_constant [1] 1) (BlockMap_variable [1] [1]) [2] [] = Inl (e, exampleManager))"
proof -
  have run: "rebalance exampleEnvironment exampleManager 4 = Inr exampleRebalanced"
    by code_simp
  have f: "contactRebalanceFrequency exampleManager \<noteq> 0"
    by (simp add: exampleManager_def)
  have d: "contactRebalanceFrequency exampleManager dvd 4"
    by (simp add: exampleManager_def)
  have t1: "tableNeighbors (neighborhoodData exampleRebalanced) 0 = [1, 2]" by code_simp
  have t2: "tableNeighbors (contactNeighborhoodData exampleRebalanced) 0 = [3]" by code_simp
  have r: "vread [2::int] 0 = Inr 2" by code_simp
  have u: "LID (BlockMap_constant [1] 1) 2 = -1" by code_simp
  have m: "1 \<in> set (MyGlobalElements (BlockMap_constant [1] 1))" by code_simp
  have b: "bondedNeighbors (BlockMap_variable [1] [1]) [2] 1 = Inr [2]" by code_simp
  have n: "2 \<in> set [2::int]" by simp
  note inst = rebalance_tables_resolve_in_overlap_map
    [where env = exampleEnvironment and s = exampleManager and step = 4
       and s' = exampleRebalanced and ids = "[2]" and j = 0 and n = 2
       and ov = "BlockMap_constant [1] 1" and k = 0 and nl = "[1]" and g = 1
       and rodm = "BlockMap_constant [1] 1" and rbm = "BlockMap_variable [1] [1]"
       and bs = "[2]" and sb = exampleManager and cn = "[]"]
  have p: "0 < NumMyElements (oneDimensionalContactMap exampleRebalanced)" by code_simp
  from inst run f d p have
    "\<forall>l \<in> set (tableNeighbors (neighborhoodData exampleRebalanced) 0).
        validSlot (oneDimensionalOverlapContactMap exampleRebalanced) l"
    "\<forall>l \<in> set (tableNeighbors (contactNeighborhoodData exampleRebalanced) 0).
        validSlot (oneDimensionalOverlapContactMap exampleRebalanced) l"
    by blast+
  then have v: "validSlot (oneDimensionalOverlapContactMap exampleRebalanced) 1"
    "validSlot (oneDimensionalOverlapContactMap exampleRebalanced) 2"
    "validSlot (oneDimensionalOverlapContactMap exampleRebalanced) 3"
    unfolding t1 t2 by simp_all
  from inst r u m b n have e:
    "bondNeighborLoop (BlockMap_constant [1] 1) [2] 0 (Suc 0) [1]
        = Inl (RangeError ''Invalid index into rebalancedOneDimensionalOverlapMap'')"
    "\<exists>e. createRebalancedNeighborhoodData (BlockMap_constant [1] 1) (BlockMap_constant [1] 1)
              (BlockMap_variable [1] [1]) [2] = Inl e
          \<and> rebalanceNeighborhoodData exampleManager (BlockMap_constant [1] 1)
              (BlockMap_constant [1] 1) (BlockMap_variable [1] [1]) [2] [] = Inl (e, exampleManager)"
    by blast+
  from run f d t1 t2 v r u m b n e show ?thesis by blast
qed

section \<open>Horizons of the contact blocks\<close>








section \<open>The parameters of the contact model\<close>






section \<open>Imports into a new vector\<close>

lemma length_overwriteBlock: "length (overwriteBlock old b) = length old"
  by (simp add: overwriteBlock_def)

lemma overwriteBlock_same_length: "length b = length old \<Longrightarrow> overwriteBlock old b = b"
  by (simp add: overwriteBlock_def)

lemma splitBlocks_replicate:
  "splitBlocks (replicate n c) (replicate (n * nat c) x) = replicate n (replicate (nat c) x)"
proof (induction n)
  case 0
  show ?case by simp
next
  case (Suc n)
  have "drop (nat c) (replicate (Suc n * nat c) x) = replicate (n * nat c) x" by simp
  moreover have "take (nat c) (replicate (Suc n * nat c) x) = replicate (nat c) x" by simp
  ultimately show ?case using Suc.IH by simp
qed

lemma splitBlocks_concat:
  "\<forall>b \<in> set bs. length b = nat c \<Longrightarrow> splitBlocks (replicate (length bs) c) (concat bs) = bs"
  by (induction bs) simp_all

lemma Epetra_Vector_new_constant:
  "0 \<le> c \<Longrightarrow> (Epetra_Vector_new (BlockMap_constant gids c) :: real list)
              = replicate (length gids * nat c) 0"
  by (simp add: Epetra_Vector_new_def NumMyPoints_def BlockMap_constant_def sum_list_replicate
        nat_mult_distrib)

lemma Import_Insert_new_constant:
  assumes "0 \<le> c"
  shows "vectorBlocks (BlockMap_constant gids c)
           (Import_Insert remote source (Epetra_Import_new (BlockMap_constant gids c) sourceMap)
              (Epetra_Vector_new (BlockMap_constant gids c)))
         = map (importedBlock remote sourceMap source (nat c)) gids"
proof -
  let ?z = "replicate (nat c) (0::real)"
  let ?F = "\<lambda>(g, old). case distributedView remote sourceMap source g of
                      Some b \<Rightarrow> overwriteBlock old b | None \<Rightarrow> old"
  have blocks0: "vectorBlocks (BlockMap_constant gids c)
                   (Epetra_Vector_new (BlockMap_constant gids c) :: real list)
                 = replicate (length gids) ?z"
    unfolding Epetra_Vector_new_constant [OF assms] vectorBlocks_def
    by (simp add: splitBlocks_replicate BlockMap_constant_def)
  have zipz: "zip gids (replicate (length gids) ?z) = map (\<lambda>g. (g, ?z)) gids"
    by (simp add: zip_replicate2)
  have imp: "Import_Insert remote source (Epetra_Import_new (BlockMap_constant gids c) sourceMap)
              (Epetra_Vector_new (BlockMap_constant gids c))
             = concat (map (importedBlock remote sourceMap source (nat c)) gids)"
    unfolding Import_Insert_def Epetra_Import_new_def Epetra_Import.simps blocks0
    by (simp add: zipz importedBlock_def [abs_def] comp_def BlockMap_constant_def)
  have len: "\<forall>b \<in> set (map (importedBlock remote sourceMap source (nat c)) gids). length b = nat c"
    by (auto simp: importedBlock_def length_overwriteBlock split: option.splits)
  show ?thesis
    unfolding imp vectorBlocks_def
    using splitBlocks_concat [OF len] by (simp add: BlockMap_constant_def)
qed

lemma importedBlock_held:
  "distributedView remote sourceMap source g = Some b \<Longrightarrow> length b = c \<Longrightarrow>
     importedBlock remote sourceMap source c g = b"
  by (simp add: importedBlock_def overwriteBlock_same_length)

lemma importedBlock_not_held:
  "distributedView remote sourceMap source g = None \<Longrightarrow>
     importedBlock remote sourceMap source c g = replicate c 0"
  by (simp add: importedBlock_def)

lemma rebalanceMothership_columns:
  "contactBlockIDs (rebalanceMothership env T s)
     = Import_Insert (remoteBlockIDs env) (contactBlockIDs s) (oneDimensionalMapImporter T)
         (Epetra_Vector_new (rebalancedOneDimensionalMap T))"
  "contactVolume (rebalanceMothership env T s)
     = Import_Insert (remoteVolume env) (contactVolume s) (oneDimensionalMapImporter T)
         (Epetra_Vector_new (rebalancedOneDimensionalMap T))"
  "contactY (rebalanceMothership env T s)
     = Import_Insert (remoteY env) (contactY s) (threeDimensionalMapImporter T)
         (Epetra_Vector_new (rebalancedThreeDimensionalMap T))"
  "contactV (rebalanceMothership env T s)
     = Import_Insert (remoteV env) (contactV s) (threeDimensionalMapImporter T)
         (Epetra_Vector_new (rebalancedThreeDimensionalMap T))"
  "contactContactForce (rebalanceMothership env T s)
     = Import_Insert (remoteContactForce env) (contactContactForce s) (threeDimensionalMapImporter T)
         (Epetra_Vector_new (rebalancedThreeDimensionalMap T))"
  "contactScratch (rebalanceMothership env T s)
     = Import_Insert (remoteScratch env) (contactScratch s) (threeDimensionalMapImporter T)
         (Epetra_Vector_new (rebalancedThreeDimensionalMap T))"
  by (simp_all add: rebalanceMothership_def Let_def)

section \<open>The mothership vectors after a rebalance cycle\<close>

text \<open>
  C7, as the code has it. After a rebalance cycle every point of the new owned
  decomposition holds, in each of the six mothership vectors (block IDs, volumes,
  positions, velocities, contact force and scratch), the values that the old decomposition
  held for it, and zeros when no rank held the point: the contact force and the scratch
  vector are moved like the other four and are not set to zero.
\<close>

theorem rebalance_moves_every_mothership_vector:
  assumes "rebalance env s step = Inr s'"
      and "contactRebalanceFrequency s \<noteq> 0"
      and "contactRebalanceFrequency s dvd step"
  shows "vectorBlocks (oneDimensionalContactMap s') (contactBlockIDs s')
           = map (importedBlock (remoteBlockIDs env) (oneDimensionalContactMap s) (contactBlockIDs s) 1)
               (MyGlobalElements (oneDimensionalContactMap s'))
       \<and> vectorBlocks (oneDimensionalContactMap s') (contactVolume s')
           = map (importedBlock (remoteVolume env) (oneDimensionalContactMap s) (contactVolume s) 1)
               (MyGlobalElements (oneDimensionalContactMap s'))
       \<and> vectorBlocks (threeDimensionalContactMap s') (contactY s')
           = map (importedBlock (remoteY env) (threeDimensionalContactMap s) (contactY s) 3)
               (MyGlobalElements (threeDimensionalContactMap s'))
       \<and> vectorBlocks (threeDimensionalContactMap s') (contactV s')
           = map (importedBlock (remoteV env) (threeDimensionalContactMap s) (contactV s) 3)
               (MyGlobalElements (threeDimensionalContactMap s'))
       \<and> vectorBlocks (threeDimensionalContactMap s') (contactContactForce s')
           = map (importedBlock (remoteContactForce env) (threeDimensionalContactMap s)
                    (contactContactForce s) 3)
               (MyGlobalElements (threeDimensionalContactMap s'))
       \<and> vectorBlocks (threeDimensionalContactMap s') (contactScratch s')
           = map (importedBlock (remoteScratch env) (threeDimensionalContactMap s)
                    (contactScratch s) 3)
               (MyGlobalElements (threeDimensionalContactMap s'))"
proof -
  from assms obtain T s2 where T: "rebalanceTopology env s = Inr T"
    and tables: "rebalanceNeighborhoodData s (rebalancedOneDimensionalMap T)
           (rebalancedOneDimensionalOverlapMap T) (rebalancedBondMap T)
           (rebalancedNeighborGlobalIDs T) (contactNeighborGlobalIDs T) = Inr s2"
    and s': "s' = rebalanceMothership env T s2"
    by (rule rebalance_cycle_Inr)
  from tables obtain nd cnd where
    s2: "s2 = s\<lparr>neighborhoodData := nd, contactNeighborhoodData := cnd\<rparr>"
    by (rule rebalanceNeighborhoodData_Inr)
  let ?g = "take (numPoints (loadBalancedDecomp env)) (myGlobalIDs (loadBalancedDecomp env))"
  from T have m1: "rebalancedOneDimensionalMap T = BlockMap_constant ?g 1"
    and m3: "rebalancedThreeDimensionalMap T = BlockMap_constant ?g 3"
    and i1: "oneDimensionalMapImporter T
               = Epetra_Import_new (BlockMap_constant ?g 1) (oneDimensionalContactMap s)"
    and i3: "threeDimensionalMapImporter T
               = Epetra_Import_new (BlockMap_constant ?g 3) (threeDimensionalContactMap s)"
    by (auto elim!: rebalanceTopology_Inr simp: getOwnedMap_def)
  have g1: "MyGlobalElements (BlockMap_constant ?g 1) = ?g"
    and g3: "MyGlobalElements (BlockMap_constant ?g 3) = ?g"
    by (simp_all add: BlockMap_constant_def)
  have old: "contactBlockIDs s2 = contactBlockIDs s" "contactVolume s2 = contactVolume s"
    "contactY s2 = contactY s" "contactV s2 = contactV s"
    "contactContactForce s2 = contactContactForce s" "contactScratch s2 = contactScratch s"
    by (simp_all add: s2)
  have n1: "nat 1 = (1::nat)" and n3: "nat 3 = (3::nat)" by simp_all
  note I1 = Import_Insert_new_constant [of 1 ?g _ _ "oneDimensionalContactMap s", unfolded n1]
  note I3 = Import_Insert_new_constant [of 3 ?g _ _ "threeDimensionalContactMap s", unfolded n3]
  show ?thesis
    unfolding s' rebalanceMothership_maps rebalanceMothership_columns old m1 m3 i1 i3 g1 g3
    using I1 I3 by simp
qed

text \<open>
  In the small decomposition \<^verbatim>\<open>exportData\<close> has summed the forces of two blocks: 11 on
  the first component of point 1 and 2 on the second component of point 2, with the
  second block's 10 left in the scratch vector. After the rebalance of step 4 every
  vector holds the same values per point, in the slots of the new decomposition.
\<close>

theorem rebalance_moves_every_mothership_vector_witness:
  "exportData noRemoteRows noRemote exampleExporting [5, 0, 0, 0, 0, 0]
     = (exampleExported, [11, 0, 0, 0, 2, 0])
   \<and> rebalance exampleEnvironment exampleExported 4 = Inr exampleExportedRebalanced
   \<and> contactRebalanceFrequency exampleExported \<noteq> 0
   \<and> contactRebalanceFrequency exampleExported dvd 4
   \<and> vectorBlocks (oneDimensionalContactMap exampleExportedRebalanced)
        (contactBlockIDs exampleExportedRebalanced) = [[2], [1]]
   \<and> vectorBlocks (oneDimensionalContactMap exampleExportedRebalanced)
        (contactVolume exampleExportedRebalanced) = [[4], [3]]
   \<and> vectorBlocks (threeDimensionalContactMap exampleExportedRebalanced)
        (contactY exampleExportedRebalanced) = [[1, 0, 0], [0, 0, 0]]
   \<and> vectorBlocks (threeDimensionalContactMap exampleExportedRebalanced)
        (contactV exampleExportedRebalanced) = [[0, 0, 5], [0, 0, 0]]
   \<and> vectorBlocks (threeDimensionalContactMap exampleExportedRebalanced)
        (contactContactForce exampleExportedRebalanced) = [[0, 2, 0], [11, 0, 0]]
   \<and> vectorBlocks (threeDimensionalContactMap exampleExportedRebalanced)
        (contactScratch exampleExportedRebalanced) = [[0, 0, 0], [10, 0, 0]]"
proof -
  have ex: "exportData noRemoteRows noRemote exampleExporting [5, 0, 0, 0, 0, 0]
     = (exampleExported, [11, 0, 0, 0, 2, 0])"
    by code_simp
  have run: "rebalance exampleEnvironment exampleExported 4 = Inr exampleExportedRebalanced"
    by code_simp
  have f: "contactRebalanceFrequency exampleExported \<noteq> 0"
    by (simp add: exampleExported_def exampleExporting_def exampleManager_def)
  have d: "contactRebalanceFrequency exampleExported dvd 4"
    by (simp add: exampleExported_def exampleExporting_def exampleManager_def)
  have e1: "map (importedBlock (remoteBlockIDs exampleEnvironment)
                   (oneDimensionalContactMap exampleExported) (contactBlockIDs exampleExported) 1)
               (MyGlobalElements (oneDimensionalContactMap exampleExportedRebalanced))
             = [[2], [1]]"
    by code_simp
  have e2: "map (importedBlock (remoteVolume exampleEnvironment)
                   (oneDimensionalContactMap exampleExported) (contactVolume exampleExported) 1)
               (MyGlobalElements (oneDimensionalContactMap exampleExportedRebalanced))
             = [[4], [3]]"
    by code_simp
  have e3: "map (importedBlock (remoteY exampleEnvironment)
                   (threeDimensionalContactMap exampleExported) (contactY exampleExported) 3)
               (MyGlobalElements (threeDimensionalContactMap exampleExportedRebalanced))
             = [[1, 0, 0], [0, 0, 0]]"
    by code_simp
  have e4: "map (importedBlock (remoteV exampleEnvironment)
                   (threeDimensionalContactMap exampleExported) (contactV exampleExported) 3)
               (MyGlobalElements (threeDimensionalContactMap exampleExportedRebalanced))
             = [[0, 0, 5], [0, 0, 0]]"
    by code_simp
  have e5: "map (importedBlock (remoteContactForce exampleEnvironment)
                   (threeDimensionalContactMap exampleExported)
                   (contactContactForce exampleExported) 3)
               (MyGlobalElements (threeDimensionalContactMap exampleExportedRebalanced))
             = [[0, 2, 0], [11, 0, 0]]"
    by code_simp
  have e6: "map (importedBlock (remoteScratch exampleEnvironment)
                   (threeDimensionalContactMap exampleExported) (contactScratch exampleExported) 3)
               (MyGlobalElements (threeDimensionalContactMap exampleExportedRebalanced))
             = [[0, 0, 0], [10, 0, 0]]"
    by code_simp
  note m = rebalance_moves_every_mothership_vector [OF run f d, unfolded e1 e2 e3 e4 e5 e6]
  show ?thesis
    by (intro conjI ex run f d m [THEN conjunct1] m [THEN conjunct2, THEN conjunct1]
          m [THEN conjunct2, THEN conjunct2, THEN conjunct1]
          m [THEN conjunct2, THEN conjunct2, THEN conjunct2, THEN conjunct1]
          m [THEN conjunct2, THEN conjunct2, THEN conjunct2, THEN conjunct2, THEN conjunct1]
          m [THEN conjunct2, THEN conjunct2, THEN conjunct2, THEN conjunct2, THEN conjunct2])
qed

text \<open>
  C7, as the specification states it, fails on the same rebalance: the cycle has run on
  the manager that \<^verbatim>\<open>exportData\<close> left, and neither the contact force nor the scratch
  vector of the new decomposition is zero.
\<close>

theorem rebalance_zeroes_transient_buffers_counterexample:
  "exportData noRemoteRows noRemote exampleExporting [5, 0, 0, 0, 0, 0]
     = (exampleExported, [11, 0, 0, 0, 2, 0])
   \<and> rebalance exampleEnvironment exampleExported 4 = Inr exampleExportedRebalanced
   \<and> contactRebalanceFrequency exampleExported dvd 4
   \<and> contactContactForce exampleExportedRebalanced = [0, 2, 0, 11, 0, 0]
   \<and> contactContactForce exampleExportedRebalanced
       \<noteq> PutScalar 0 (contactContactForce exampleExportedRebalanced)
   \<and> contactScratch exampleExportedRebalanced = [0, 0, 0, 10, 0, 0]
   \<and> contactScratch exampleExportedRebalanced
       \<noteq> PutScalar 0 (contactScratch exampleExportedRebalanced)"
proof -
  have ex: "exportData noRemoteRows noRemote exampleExporting [5, 0, 0, 0, 0, 0]
     = (exampleExported, [11, 0, 0, 0, 2, 0])"
    by code_simp
  have run: "rebalance exampleEnvironment exampleExported 4 = Inr exampleExportedRebalanced"
    by code_simp
  have d: "contactRebalanceFrequency exampleExported dvd 4"
    by (simp add: exampleExported_def exampleExporting_def exampleManager_def)
  have c: "contactContactForce exampleExportedRebalanced = [0, 2, 0, 11, 0, 0]"
    and s: "contactScratch exampleExportedRebalanced = [0, 0, 0, 10, 0, 0]"
    by (simp_all add: exampleExportedRebalanced_def)
  have nc: "contactContactForce exampleExportedRebalanced
              \<noteq> PutScalar 0 (contactContactForce exampleExportedRebalanced)"
    unfolding c by (simp add: PutScalar_def numeral_eq_Suc)
  have ns: "contactScratch exampleExportedRebalanced
              \<noteq> PutScalar 0 (contactScratch exampleExportedRebalanced)"
    unfolding s by (simp add: PutScalar_def numeral_eq_Suc)
  show ?thesis by (intro conjI ex run d c nc s ns)
qed

section \<open>Imports into any vector\<close>

lemma splitBlocks_lengths:
  "sum_list (map nat sizes) \<le> length v \<Longrightarrow> map length (splitBlocks sizes v) = map nat sizes"
proof (induction sizes arbitrary: v)
  case Nil
  show ?case by simp
next
  case (Cons s sizes)
  then have "sum_list (map nat sizes) \<le> length (drop (nat s) v)" by simp
  from Cons.IH [OF this] Cons.prems show ?case by simp
qed

lemma splitBlocks_concat_lengths:
  "map length bs = map nat sizes \<Longrightarrow> splitBlocks sizes (concat bs) = bs"
proof (induction sizes arbitrary: bs)
  case Nil
  then show ?case by simp
next
  case (Cons s sizes)
  then obtain b bs' where bs: "bs = b # bs'" by (cases bs) auto
  with Cons.prems have "length b = nat s" and "map length bs' = map nat sizes" by simp_all
  with Cons.IH [of bs'] show ?case by (simp add: bs)
qed

lemma Import_Insert_blocks:
  assumes "length (MyGlobalElements tm) = length (ElementSizeList tm)"
      and "sum_list (map nat (ElementSizeList tm)) \<le> length target"
  shows "vectorBlocks tm (Import_Insert remote source \<lparr>TargetMap = tm, SourceMap = sm\<rparr> target)
         = map (\<lambda>(g, old). case distributedView remote sm source g of
                               Some b \<Rightarrow> overwriteBlock old b | None \<Rightarrow> old)
             (zip (MyGlobalElements tm) (vectorBlocks tm target))"
proof -
  let ?F = "\<lambda>(g, old). case distributedView remote sm source g of
                               Some b \<Rightarrow> overwriteBlock old b | None \<Rightarrow> old"
  let ?old = "splitBlocks (ElementSizeList tm) target"
  let ?new = "map ?F (zip (MyGlobalElements tm) ?old)"
  have lo: "map length ?old = map nat (ElementSizeList tm)"
    by (rule splitBlocks_lengths [OF assms(2)])
  then have "length ?old = length (ElementSizeList tm)"
    using length_map [of length ?old] by simp
  with assms(1) have same: "length (MyGlobalElements tm) = length ?old" by simp
  have "map length ?new = map (length \<circ> snd) (zip (MyGlobalElements tm) ?old)"
    by (auto simp: length_overwriteBlock split: option.splits)
  also have "\<dots> = map length ?old"
    using same by (simp add: map_snd_zip flip: map_map)
  finally have "map length ?new = map nat (ElementSizeList tm)" using lo by simp
  from splitBlocks_concat_lengths [OF this]
  show ?thesis by (simp add: vectorBlocks_def Import_Insert_def)
qed

section \<open>The force exported by the contact blocks\<close>

lemma length_addAt: "length (addAt target offset vals) = length target"
  by (simp add: addAt_def)

lemma length_addRow: "length (addRow m row target) = length target"
  by (simp add: addRow_def Let_def length_addAt)

lemma length_fold_addRow: "length (fold (addRow m) rows target) = length target"
  by (induction rows arbitrary: target) (simp_all add: length_addRow)

lemma length_blockExportData_Add: "length (blockExportData_Add rr m b target) = length target"
  by (simp add: blockExportData_Add_def length_fold_addRow)

lemma exportLoop_closed:
  "exportLoop rr m blocks (force, scratch)
     = (fold (\<lambda>b acc. Update 1 (blockExportData_Add rr m b (replicate (length scratch) 0)) 1 acc)
          blocks force,
        if blocks = [] then scratch
        else blockExportData_Add rr m (last blocks) (replicate (length scratch) 0))"
proof (induction blocks arbitrary: force scratch)
  case Nil
  show ?case by simp
next
  case (Cons b blocks)
  let ?s1 = "blockExportData_Add rr m b (replicate (length scratch) 0)"
  have l: "length ?s1 = length scratch" by (simp add: length_blockExportData_Add)
  show ?case
    by (simp add: Let_def PutScalar_def Cons.IH l)
qed

lemma fold_Update_sum:
  assumes "\<forall>b \<in> set blocks. length (C b) = length acc"
  shows "length (fold (\<lambda>b acc. Update 1 (C b) 1 acc) blocks acc) = length acc
       \<and> (\<forall>i < length acc. fold (\<lambda>b acc. Update 1 (C b) 1 acc) blocks acc ! i
              = acc ! i + (\<Sum>b\<leftarrow>blocks. C b ! i))"
  using assms
proof (induction blocks arbitrary: acc)
  case Nil
  show ?case by simp
next
  case (Cons b blocks)
  let ?a1 = "Update 1 (C b) 1 acc"
  from Cons.prems have lb: "length (C b) = length acc" by simp
  then have l1: "length ?a1 = length acc" by (simp add: Update_def)
  have n1: "\<forall>i < length acc. ?a1 ! i = acc ! i + C b ! i"
    using lb by (simp add: Update_def)
  from Cons.prems l1 have "\<forall>b \<in> set blocks. length (C b) = length ?a1" by simp
  from Cons.IH [OF this] l1 n1 show ?case by (simp add: add.assoc)
qed

text \<open>
  C8, as the code has it. With the contact-force and scratch vectors of equal length, as
  the two columns of one multivector are, \<^verbatim>\<open>exportData\<close> leaves in the contact-force
  vector, at every index, the sum over all contact blocks of what each block adds to a
  cleared scratch vector. Neither that sum nor the vector returned to the caller depends
  on what the two internal vectors held before the call. The caller's vector is the
  \<^verbatim>\<open>Insert\<close> export of the sum: an element whose global ID the contact decomposition
  holds is replaced by the summed force of that ID, as far as the element has room, and
  every other element is as the caller passed it; nothing is added to what the caller's
  vector held.
\<close>

theorem exportData_sums_blocks_and_overwrites:
  assumes "length (contactScratch s) = length (contactContactForce s)"
  shows "\<exists>s' cf'. exportData rr remote s contactForce = (s', cf')
     \<and> length (contactContactForce s') = length (contactContactForce s)
     \<and> (\<forall>i < length (contactContactForce s).
           contactContactForce s' ! i = (\<Sum>b\<leftarrow>contactBlocks s. blockContribution rr s b ! i))
     \<and> cf' = Export_Insert remote (contactContactForce s')
               (threeDimensionalMothershipToContactMothershipImporter s) contactForce
     \<and> (\<forall>f g. length f = length (contactContactForce s) \<and> length g = length (contactScratch s)
           \<longrightarrow> contactContactForce
                 (fst (exportData rr remote (s\<lparr>contactContactForce := f, contactScratch := g\<rparr>)
                         contactForce)) = contactContactForce s'
             \<and> snd (exportData rr remote (s\<lparr>contactContactForce := f, contactScratch := g\<rparr>)
                      contactForce) = cf')
     \<and> (length (MyGlobalElements (SourceMap (threeDimensionalMothershipToContactMothershipImporter s)))
          = length (ElementSizeList (SourceMap (threeDimensionalMothershipToContactMothershipImporter s)))
        \<and> sum_list (map nat (ElementSizeList
              (SourceMap (threeDimensionalMothershipToContactMothershipImporter s))))
          \<le> length contactForce
        \<longrightarrow> vectorBlocks (SourceMap (threeDimensionalMothershipToContactMothershipImporter s)) cf'
            = map (\<lambda>(g, old).
                     case distributedView remote
                            (TargetMap (threeDimensionalMothershipToContactMothershipImporter s))
                            (contactContactForce s') g of
                       Some b \<Rightarrow> overwriteBlock old b
                     | None \<Rightarrow> old)
                (zip (MyGlobalElements
                        (SourceMap (threeDimensionalMothershipToContactMothershipImporter s)))
                     (vectorBlocks
                        (SourceMap (threeDimensionalMothershipToContactMothershipImporter s))
                        contactForce)))"
proof -
  let ?m = "threeDimensionalContactMap s"
  let ?imp = "threeDimensionalMothershipToContactMothershipImporter s"
  let ?n = "length (contactContactForce s)"
  let ?C = "\<lambda>b. blockExportData_Add rr ?m b (replicate (length (contactScratch s)) 0)"
  let ?sum = "fold (\<lambda>b acc. Update 1 (?C b) 1 acc) (contactBlocks s) (replicate ?n 0)"
  let ?scr = "if contactBlocks s = [] then contactScratch s else ?C (last (contactBlocks s))"
  have closed: "\<And>f g. length f = ?n \<Longrightarrow> length g = length (contactScratch s) \<Longrightarrow>
      exportData rr remote (s\<lparr>contactContactForce := f, contactScratch := g\<rparr>) contactForce
        = (s\<lparr>contactContactForce := ?sum,
              contactScratch := (if contactBlocks s = [] then g else ?C (last (contactBlocks s)))\<rparr>,
           Export_Insert remote ?sum ?imp contactForce)"
    by (simp add: exportData_def Let_def exportLoop_closed PutScalar_def)
  have here: "exportData rr remote s contactForce
        = (s\<lparr>contactContactForce := ?sum, contactScratch := ?scr\<rparr>,
           Export_Insert remote ?sum ?imp contactForce)"
    by (simp add: exportData_def Let_def exportLoop_closed PutScalar_def)
  have "\<forall>b \<in> set (contactBlocks s). length (?C b) = length (replicate ?n (0::real))"
    using assms by (simp add: length_blockExportData_Add)
  from fold_Update_sum [of "contactBlocks s" ?C, OF this]
  have ls: "length ?sum = ?n"
    and ns: "\<forall>i < ?n. ?sum ! i = (\<Sum>b\<leftarrow>contactBlocks s. ?C b ! i)"
    by simp_all
  have blocks: "length (MyGlobalElements (SourceMap ?imp)) = length (ElementSizeList (SourceMap ?imp))
        \<and> sum_list (map nat (ElementSizeList (SourceMap ?imp))) \<le> length contactForce
        \<longrightarrow> vectorBlocks (SourceMap ?imp) (Export_Insert remote ?sum ?imp contactForce)
            = map (\<lambda>(g, old). case distributedView remote (TargetMap ?imp) ?sum g of
                       Some b \<Rightarrow> overwriteBlock old b | None \<Rightarrow> old)
                (zip (MyGlobalElements (SourceMap ?imp))
                     (vectorBlocks (SourceMap ?imp) contactForce))"
    unfolding Export_Insert_def using Import_Insert_blocks by blast
  show ?thesis
    apply (rule exI [of _ "s\<lparr>contactContactForce := ?sum, contactScratch := ?scr\<rparr>"])
    apply (rule exI [of _ "Export_Insert remote ?sum ?imp contactForce"])
    apply (intro conjI)
         apply (rule here)
        apply (simp add: ls)
       apply (simp add: ns blockContribution_def)
      apply simp
     apply (simp add: closed)
    using blocks apply simp
    done
qed

text \<open>
  Two blocks export into a caller's vector that holds 5 for the first component of
  point 1; the internal vectors hold 7 there from before. The summed force of that
  component is 1 + 10 = 11, and 11 is what the caller's vector holds afterwards.
\<close>

theorem exportData_sums_blocks_and_overwrites_witness:
  "length (contactScratch exampleExporting) = length (contactContactForce exampleExporting)
   \<and> exportData noRemoteRows noRemote exampleExporting [5, 0, 0, 0, 0, 0]
       = (exampleExporting\<lparr>contactContactForce := [11, 0, 0, 0, 2, 0],
                            contactScratch := [10, 0, 0, 0, 0, 0]\<rparr>,
          [11, 0, 0, 0, 2, 0])
   \<and> (\<exists>s' cf'. exportData noRemoteRows noRemote exampleExporting [5, 0, 0, 0, 0, 0] = (s', cf')
         \<and> length (contactContactForce s') = length (contactContactForce exampleExporting)
         \<and> cf' = Export_Insert noRemote (contactContactForce s')
               (threeDimensionalMothershipToContactMothershipImporter exampleExporting)
               [5, 0, 0, 0, 0, 0]
         \<and> contactContactForce s' ! 0
             = (\<Sum>b\<leftarrow>contactBlocks exampleExporting.
                  blockContribution noRemoteRows exampleExporting b ! 0))
   \<and> (\<Sum>b\<leftarrow>contactBlocks exampleExporting.
         blockContribution noRemoteRows exampleExporting b ! 0) = 11"
proof -
  have len: "length (contactScratch exampleExporting) = length (contactContactForce exampleExporting)"
    by (simp add: exampleExporting_def exampleManager_def)
  have run: "exportData noRemoteRows noRemote exampleExporting [5, 0, 0, 0, 0, 0]
       = (exampleExporting\<lparr>contactContactForce := [11, 0, 0, 0, 2, 0],
                            contactScratch := [10, 0, 0, 0, 0, 0]\<rparr>,
          [11, 0, 0, 0, 2, 0])"
    by code_simp
  have pos: "0 < length (contactContactForce exampleExporting)"
    by (simp add: exampleExporting_def exampleManager_def)
  have sum: "(\<Sum>b\<leftarrow>contactBlocks exampleExporting.
         blockContribution noRemoteRows exampleExporting b ! 0) = 11"
    by code_simp
  from exportData_sums_blocks_and_overwrites
         [OF len, of noRemoteRows noRemote "[5, 0, 0, 0, 0, 0]"] pos
  have "\<exists>s' cf'. exportData noRemoteRows noRemote exampleExporting [5, 0, 0, 0, 0, 0] = (s', cf')
         \<and> length (contactContactForce s') = length (contactContactForce exampleExporting)
         \<and> cf' = Export_Insert noRemote (contactContactForce s')
               (threeDimensionalMothershipToContactMothershipImporter exampleExporting)
               [5, 0, 0, 0, 0, 0]
         \<and> contactContactForce s' ! 0
             = (\<Sum>b\<leftarrow>contactBlocks exampleExporting.
                  blockContribution noRemoteRows exampleExporting b ! 0)"
    by blast
  with len run sum show ?thesis by blast
qed

text \<open>
  C8, as the specification states it, fails on the same call: had the summed force been
  accumulated into the caller's vector, its first component would be 5 + 11 = 16.
\<close>

theorem exportData_accumulates_into_caller_counterexample:
  "contactContactForce (fst (exportData noRemoteRows noRemote exampleExporting [5, 0, 0, 0, 0, 0]))
     = [11, 0, 0, 0, 2, 0]
   \<and> snd (exportData noRemoteRows noRemote exampleExporting [5, 0, 0, 0, 0, 0])
       = [11, 0, 0, 0, 2, 0]
   \<and> snd (exportData noRemoteRows noRemote exampleExporting [5, 0, 0, 0, 0, 0])
       \<noteq> [16, 0, 0, 0, 2, 0]"
proof -
  have a: "contactContactForce
             (fst (exportData noRemoteRows noRemote exampleExporting [5, 0, 0, 0, 0, 0]))
           = [11, 0, 0, 0, 2, 0]"
    by code_simp
  have b: "snd (exportData noRemoteRows noRemote exampleExporting [5, 0, 0, 0, 0, 0])
           = [11, 0, 0, 0, 2, 0]"
    by code_simp
  have c: "snd (exportData noRemoteRows noRemote exampleExporting [5, 0, 0, 0, 0, 0])
           \<noteq> [16, 0, 0, 0, 2, 0]"
    unfolding b by simp
  from a b c show ?thesis by blast
qed

end
